theory Spec2Isabelle
  imports Main
begin

section \<open>Host-language values\<close>

text \<open>
  The handlers of \<^verbatim>\<open>routes/users.js\<close> and \<^verbatim>\<open>routes/tasks.js\<close> branch on JavaScript
  truthiness, on \<^verbatim>\<open>JSON.parse\<close>, on \<^verbatim>\<open>parseInt\<close> and on the name and code of the
  error a store call rejects with.  This section models those host notions.

  A JSON value as \<^verbatim>\<open>JSON.parse\<close> returns it.  Numbers are the integral ones; the
  handlers only test a number for being zero.
\<close>

datatype json =
    JNull
  | JBool bool
  | JNum int
  | JStr string
  | JArr "json list"
  | JObj "(string \<times> json) list"

text \<open>
  A query parameter that a handler reads as
  \<^verbatim>\<open>req.query.p ? JSON.parse(req.query.p) : {}\<close>, classified by what that
  expression observes: the parameter is not in the query string (\<open>QAbsent\<close>), it is
  the empty string, which is falsy (\<open>QEmpty\<close>), it is a non-empty string on which
  \<^verbatim>\<open>JSON.parse\<close> throws (\<open>QInvalid\<close>), or a non-empty string that parses to a value.
\<close>

datatype qjson = QAbsent | QEmpty | QInvalid | QJson json

text \<open>Errors a rejected store call (or a host built-in) carries: name, code, message.\<close>

datatype err =
    CastError string
  | ValidationError string
  | MongoServerError nat string
  | TypeError string

fun err_name :: "err \<Rightarrow> string" where
  "err_name (CastError m) = ''CastError''"
| "err_name (ValidationError m) = ''ValidationError''"
| "err_name (MongoServerError c m) = ''MongoServerError''"
| "err_name (TypeError m) = ''TypeError''"

fun err_code :: "err \<Rightarrow> nat option" where
  "err_code (MongoServerError c m) = Some c"
| "err_code e = None"

fun err_message :: "err \<Rightarrow> string" where
  "err_message (CastError m) = m"
| "err_message (ValidationError m) = m"
| "err_message (MongoServerError c m) = m"
| "err_message (TypeError m) = m"

text \<open>Truthiness of an optional string (\<^verbatim>\<open>undefined\<close> and \<^verbatim>\<open>""\<close> are falsy).\<close>

fun truthy_str :: "string option \<Rightarrow> bool" where
  "truthy_str None = False"
| "truthy_str (Some s) = (s \<noteq> [])"

text \<open>Truthiness of a JSON value: \<^verbatim>\<open>null\<close>, \<^verbatim>\<open>false\<close>, \<^verbatim>\<open>0\<close> and \<^verbatim>\<open>""\<close> are falsy.\<close>

fun truthy_json :: "json \<Rightarrow> bool" where
  "truthy_json JNull = False"
| "truthy_json (JBool b) = b"
| "truthy_json (JNum n) = (n \<noteq> 0)"
| "truthy_json (JStr s) = (s \<noteq> [])"
| "truthy_json (JArr xs) = True"
| "truthy_json (JObj kvs) = True"

text \<open>
  \<^verbatim>\<open>Object.keys(v).length\<close>: the own enumerable keys of an object, the indices of an
  array or a string, none for a number or a boolean, and a \<^verbatim>\<open>TypeError\<close> on
  \<^verbatim>\<open>null\<close>.
\<close>

fun object_keys_length :: "json \<Rightarrow> err + nat" where
  "object_keys_length JNull = Inl (TypeError ''Cannot convert undefined or null to object'')"
| "object_keys_length (JBool b) = Inr 0"
| "object_keys_length (JNum n) = Inr 0"
| "object_keys_length (JStr s) = Inr (length s)"
| "object_keys_length (JArr xs) = Inr (length xs)"
| "object_keys_length (JObj kvs) = Inr (length kvs)"

text \<open>
  A Number as \<^verbatim>\<open>parseInt\<close> returns it: \<^verbatim>\<open>NaN\<close>, a finite Number, which is integral
  (\<open>JsNum n\<close> has the value \<open>n\<close>; both zeros are \<open>JsNum 0\<close>), or an infinity.
\<close>

datatype jsnum = JsNaN | JsNum int | JsInf | JsNegInf

text \<open>Truthiness of a Number: \<^verbatim>\<open>NaN\<close> and zero are falsy.\<close>

fun truthy_num :: "jsnum \<Rightarrow> bool" where
  "truthy_num JsNaN = False"
| "truthy_num (JsNum n) = (n \<noteq> 0)"
| "truthy_num JsInf = True"
| "truthy_num JsNegInf = True"

text \<open>
  \<^verbatim>\<open>parseInt\<close> reads the characters of its argument, so the strings it is applied to
  (the \<open>skip\<close> and \<open>limit\<close> parameters) are kept as JavaScript has them: lists of UTF-16
  code units.  \<open>units\<close> gives the code units of a literal.
\<close>

type_synonym jsstring = "nat list"

definition units :: "string \<Rightarrow> jsstring" where
  "units s = map of_char s"

text \<open>
  The white space and line terminators of ECMAScript: TAB, LF, VT, FF, CR, SP, NBSP,
  U+1680, U+2000 to U+200A, U+2028, U+2029, U+202F, U+205F, U+3000 and U+FEFF.
\<close>

definition is_space_unit :: "nat \<Rightarrow> bool" where
  "is_space_unit u =
     (u \<in> set [0x9, 0xA, 0xB, 0xC, 0xD, 0x20, 0xA0, 0x1680, 0x2028, 0x2029, 0x202F,
                0x205F, 0x3000, 0xFEFF] \<or>
      (0x2000 \<le> u \<and> u \<le> 0x200A))"

text \<open>The value of a code unit as a digit; 36 when it is no digit of any radix.\<close>

definition digit_val :: "nat \<Rightarrow> nat" where
  "digit_val n =
     (if 48 \<le> n \<and> n \<le> 57 then n - 48
      else if 97 \<le> n \<and> n \<le> 122 then n - 87
      else if 65 \<le> n \<and> n \<le> 90 then n - 55
      else 36)"

text \<open>
  The Number value of a non-negative integer: the nearest double, ties to the even
  significand, and \<open>None\<close> when that is beyond the largest double (the result is an
  infinity).  A double has 53 significant bits.
\<close>

fun bit_length :: "nat \<Rightarrow> nat" where
  "bit_length n = (if n = 0 then 0 else Suc (bit_length (n div 2)))"

definition round_double :: "nat \<Rightarrow> nat option" where
  "round_double m =
     (if bit_length m \<le> 53 then Some m
      else
        (let e = bit_length m - 53;
             q = m div 2 ^ e;
             r = m mod 2 ^ e;
             h = 2 ^ (e - 1);
             q' = (if h < r \<or> (r = h \<and> odd q) then q + 1 else q);
             v = q' * 2 ^ e
         in if 2 ^ 1024 \<le> v then None else Some v))"

text \<open>
  \<^verbatim>\<open>parseInt(s)\<close> with no radix, on a string: leading white space is skipped, then an
  optional sign, then an optional \<^verbatim>\<open>0x\<close> or \<^verbatim>\<open>0X\<close> that selects radix 16, then the
  longest run of digits of the radix is read.  No digit gives \<^verbatim>\<open>NaN\<close>; otherwise the
  result is the Number value of the signed integer the digits denote.
\<close>

definition js_parseInt :: "jsstring \<Rightarrow> jsnum" where
  "js_parseInt s =
     (let s1 = dropWhile is_space_unit s;
          neg = (case s1 of [] \<Rightarrow> False | c # r \<Rightarrow> c = 45);
          s2 = (case s1 of [] \<Rightarrow> []
                | c # r \<Rightarrow> if c = 45 \<or> c = 43 then r else s1);
          hex = (take 2 s2 = [48, 120] \<or> take 2 s2 = [48, 88]);
          radix = (if hex then 16 else 10);
          s3 = (if hex then drop 2 s2 else s2);
          ds = takeWhile (\<lambda>c. digit_val c < radix) s3;
          m = foldl (\<lambda>a c. a * radix + digit_val c) 0 ds
      in if ds = [] then JsNaN
         else (case round_double m of
                 None \<Rightarrow> if neg then JsNegInf else JsInf
               | Some v \<Rightarrow> JsNum (if neg then - int v else int v)))"

section \<open>Data model\<close>

text \<open>
  Modelled from the spec: the two schemas \<^verbatim>\<open>models/user.js\<close> and \<^verbatim>\<open>models/task.js\<close>
  (section 3 of the specification, and the \<^verbatim>\<open>@apiParam\<close> lines of the routes).  A User
  has a required non-empty name, a required e-mail that is unique among Users, a list
  of strings \<open>pendingTasks\<close> (default empty) and a creation time.  A Task has a required
  non-empty name, a required deadline, an optional description, \<open>completed\<close> (default
  false), the string \<open>assignedUser\<close> (default empty, meaning unassigned) and
  \<open>assignedUserName\<close> (default \<^verbatim>\<open>"unassigned"\<close>).  The field \<open>_id\<close> of a stored document
  is written as the string of its identifier.
\<close>

record user =
  u_id :: string
  u_name :: string
  u_email :: string
  u_pendingTasks :: "string list"
  u_dateCreated :: int

record task =
  t_id :: string
  t_name :: string
  t_deadline :: int
  t_description :: "string option"
  t_completed :: bool
  t_assignedUser :: string
  t_assignedUserName :: string

text \<open>
  Request bodies, after the body parser and the schema's casts: a field that the
  body does not carry is \<open>None\<close>.  A deadline is a number, the time in milliseconds.
\<close>

record user_body =
  ub_name :: "string option"
  ub_email :: "string option"
  ub_pendingTasks :: "string list option"

record task_body =
  tb_name :: "string option"
  tb_deadline :: "int option"
  tb_description :: "string option"
  tb_completed :: "bool option"
  tb_assignedUser :: "string option"
  tb_assignedUserName :: "string option"

text \<open>The query string of a list request and of a get-by-id request.\<close>

record list_query =
  q_where :: qjson
  q_sort :: qjson
  q_select :: qjson
  q_skip :: "jsstring option"
  q_limit :: "jsstring option"
  q_count :: "string option"

text \<open>What the server supplies to a create: the fresh identifier and the clock.\<close>

record env =
  fresh_id :: string
  now :: int

text \<open>The response envelope \<^verbatim>\<open>{message, data}\<close> with its HTTP status.\<close>

datatype rdata =
    DEmpty
  | DUser user
  | DTask task
  | DUsers "user list"
  | DTasks "task list"
  | DCount nat

record response =
  r_status :: nat
  r_message :: string
  r_data :: rdata

definition respond :: "nat \<Rightarrow> string \<Rightarrow> rdata \<Rightarrow> response" where
  "respond s m d = \<lparr>r_status = s, r_message = m, r_data = d\<rparr>"

section \<open>The document store\<close>

text \<open>
  The query a list handler builds: \<^verbatim>\<open>find(where)\<close>, then \<^verbatim>\<open>sort\<close>, \<^verbatim>\<open>select\<close>,
  \<^verbatim>\<open>skip\<close> and \<^verbatim>\<open>limit\<close>, each only when the handler calls it.
\<close>

record find_query =
  fq_where :: json
  fq_sort :: "json option"
  fq_select :: "json option"
  fq_skip :: "jsnum option"
  fq_limit :: "jsnum option"

text \<open>
  The store's query engine is an external collaborator: which filters, sort orders
  and projections it rejects, which documents a filter selects, how a sort orders them,
  what a projection keeps, and what it does with a skip or a limit that is not a
  positive 32-bit integer (\<open>e_page\<close>) are parameters of the model.
\<close>

record 'd engine =
  e_reject :: "json \<Rightarrow> json option \<Rightarrow> json option \<Rightarrow> err option"
  e_sat :: "json \<Rightarrow> 'd \<Rightarrow> bool"
  e_order :: "json \<Rightarrow> 'd list \<Rightarrow> 'd list"
  e_proj :: "json \<Rightarrow> 'd \<Rightarrow> 'd"
  e_page :: "jsnum option \<Rightarrow> jsnum option \<Rightarrow> 'd list \<Rightarrow> err + 'd list"

text \<open>
  So is the cast of a string to the store's identifier type: \<open>cast_id\<close> returns the
  identifier in the form stored documents carry it, or \<open>None\<close> when the string is not
  a well-formed identifier, in which case the store call rejects with a
  \<^verbatim>\<open>CastError\<close>.
\<close>

record adapter =
  cast_id :: "string \<Rightarrow> string option"
  user_engine :: "user engine"
  task_engine :: "task engine"
  host_parseInt :: "jsstring \<Rightarrow> jsnum"

text \<open>
  The last field is the host's \<^verbatim>\<open>parseInt\<close>, which the list handlers apply to \<open>skip\<close>
  and \<open>limit\<close>: the handlers are stated for any such function, and \<open>js_parseInt\<close> is the
  one of the examples.
\<close>

text \<open>Every call a handler makes on the store, with its arguments.\<close>

datatype op =
    UserSave user
  | UserCountDocuments json
  | UserFind find_query
  | UserFindById string "json option"
  | UserFindByIdAndUpdate string user_body
  | UserPush string string
  | UserPull string string
  | UserFindByIdAndDelete string
  | TaskSave task
  | TaskCountDocuments json
  | TaskFind find_query
  | TaskFindById string "json option"
  | TaskFindByIdAndUpdate string task_body
  | TaskFindByIdAndDelete string
  | TaskUnassignMany "string list"

text \<open>
  The state: the two collections in insertion order, and the log of the store calls
  made so far.  A store call appends itself to the log, whether the store accepts or
  rejects it.  A call is rejected only for the reasons written out below: an identifier
  that does not cast, a validator of the schema, the unique index, a query the engine
  rejects.  A lost connection and concurrent requests are not modelled: a handler runs
  from its first store call to its response on a state nobody else changes.
\<close>

record db =
  users :: "user list"
  tasks :: "task list"
  oplog :: "op list"

definition logop :: "op \<Rightarrow> db \<Rightarrow> db" where
  "logop x st = st\<lparr>oplog := oplog st @ [x]\<rparr>"

definition cast_error :: "string \<Rightarrow> err" where
  "cast_error v = CastError (''Cast to ObjectId failed for value '' @ v)"

fun upd_first :: "('d \<Rightarrow> bool) \<Rightarrow> ('d \<Rightarrow> 'd) \<Rightarrow> 'd list \<Rightarrow> 'd list" where
  "upd_first P f [] = []"
| "upd_first P f (d # ds) = (if P d then f d # ds else d # upd_first P f ds)"

fun del_first :: "('d \<Rightarrow> bool) \<Rightarrow> 'd list \<Rightarrow> 'd list" where
  "del_first P [] = []"
| "del_first P (d # ds) = (if P d then ds else d # del_first P ds)"

text \<open>
  Pagination as the store applies it.  A skip, or a limit, is ordinary when the
  handler did not set it or set it to a positive 32-bit integer: then that many
  documents are dropped, respectively at most that many are returned.  In every other
  case the engine decides.  The order is filter, sort, skip, limit, projection.
\<close>

fun ordinary :: "jsnum option \<Rightarrow> bool" where
  "ordinary None = True"
| "ordinary (Some (JsNum n)) = (0 < n \<and> n < 2147483648)"
| "ordinary (Some x) = False"

fun page_count :: "jsnum \<Rightarrow> nat" where
  "page_count (JsNum n) = nat n"
| "page_count x = 0"

definition run_find :: "'d engine \<Rightarrow> find_query \<Rightarrow> 'd list \<Rightarrow> err + 'd list" where
  "run_find eng q ds =
     (case e_reject eng (fq_where q) (fq_sort q) (fq_select q) of
        Some e \<Rightarrow> Inl e
      | None \<Rightarrow>
          (let matched = filter (e_sat eng (fq_where q)) ds;
               sorted = (case fq_sort q of None \<Rightarrow> matched | Some s \<Rightarrow> e_order eng s matched);
               paged =
                 (if ordinary (fq_skip q) \<and> ordinary (fq_limit q) then
                    (let skipped = (case fq_skip q of None \<Rightarrow> sorted
                                    | Some n \<Rightarrow> drop (page_count n) sorted)
                     in Inr (case fq_limit q of None \<Rightarrow> skipped
                             | Some l \<Rightarrow> take (page_count l) skipped))
                  else e_page eng (fq_skip q) (fq_limit q) sorted)
           in case paged of
                Inl e \<Rightarrow> Inl e
              | Inr rs \<Rightarrow>
                  Inr (case fq_select q of None \<Rightarrow> rs | Some p \<Rightarrow> map (e_proj eng p) rs)))"

definition run_count :: "'d engine \<Rightarrow> json \<Rightarrow> 'd list \<Rightarrow> err + nat" where
  "run_count eng w ds =
     (case e_reject eng w None None of
        Some e \<Rightarrow> Inl e
      | None \<Rightarrow> Inr (length (filter (e_sat eng w) ds)))"

subsection \<open>The User model\<close>

text \<open>
  \<^verbatim>\<open>user.save()\<close>: the schema validates the required fields, the store rejects a
  duplicate \<open>_id\<close> or e-mail with code 11000, otherwise the document is appended.
\<close>

definition User_save :: "db \<Rightarrow> user \<Rightarrow> (err + unit) \<times> db" where
  "User_save st u =
     (let st1 = logop (UserSave u) st in
      if u_name u = [] \<or> u_email u = [] then
        (Inl (ValidationError ''User validation failed''), st1)
      else if list_ex (\<lambda>w. u_id w = u_id u \<or> u_email w = u_email u) (users st) then
        (Inl (MongoServerError 11000 ''E11000 duplicate key error''), st1)
      else (Inr (), st1\<lparr>users := users st @ [u]\<rparr>))"

definition User_countDocuments :: "adapter \<Rightarrow> db \<Rightarrow> json \<Rightarrow> (err + nat) \<times> db" where
  "User_countDocuments ad st w =
     (run_count (user_engine ad) w (users st), logop (UserCountDocuments w) st)"

definition User_find :: "adapter \<Rightarrow> db \<Rightarrow> find_query \<Rightarrow> (err + user list) \<times> db" where
  "User_find ad st q = (run_find (user_engine ad) q (users st), logop (UserFind q) st)"

text \<open>
  \<^verbatim>\<open>User.findById(id)\<close>, with \<^verbatim>\<open>select\<close> when the handler called it: a
  \<^verbatim>\<open>CastError\<close> on an identifier that does not cast, else the document or
  \<^verbatim>\<open>null\<close>.
\<close>

definition User_findById ::
  "adapter \<Rightarrow> db \<Rightarrow> string \<Rightarrow> json option \<Rightarrow> (err + user option) \<times> db" where
  "User_findById ad st uid sel =
     (let st1 = logop (UserFindById uid sel) st in
      case cast_id ad uid of
        None \<Rightarrow> (Inl (cast_error uid), st1)
      | Some c \<Rightarrow>
          (case List.find (\<lambda>u. u_id u = c) (users st) of
             None \<Rightarrow> (Inr None, st1)
           | Some u \<Rightarrow>
               (Inr (Some (case sel of None \<Rightarrow> u | Some p \<Rightarrow> e_proj (user_engine ad) p u)),
                st1)))"

definition apply_user_body :: "user_body \<Rightarrow> user \<Rightarrow> user" where
  "apply_user_body b u =
     (let u1 = (case ub_name b of None \<Rightarrow> u | Some n \<Rightarrow> u\<lparr>u_name := n\<rparr>);
          u2 = (case ub_email b of None \<Rightarrow> u1 | Some e \<Rightarrow> u1\<lparr>u_email := e\<rparr>)
      in case ub_pendingTasks b of None \<Rightarrow> u2 | Some ps \<Rightarrow> u2\<lparr>u_pendingTasks := ps\<rparr>)"

text \<open>
  \<^verbatim>\<open>User.findByIdAndUpdate(id, body, {new: true, runValidators: true})\<close>: the fields
  the body carries are set on the first document with that identifier; the update
  validators reject an empty required field, the unique index rejects an e-mail
  another User holds; the updated document is returned, or \<^verbatim>\<open>null\<close>.
\<close>

definition User_findByIdAndUpdate ::
  "adapter \<Rightarrow> db \<Rightarrow> string \<Rightarrow> user_body \<Rightarrow> (err + user option) \<times> db" where
  "User_findByIdAndUpdate ad st uid b =
     (let st1 = logop (UserFindByIdAndUpdate uid b) st in
      case cast_id ad uid of
        None \<Rightarrow> (Inl (cast_error uid), st1)
      | Some c \<Rightarrow>
          if ub_name b = Some [] \<or> ub_email b = Some [] then
            (Inl (ValidationError ''Validation failed''), st1)
          else
            (case List.find (\<lambda>u. u_id u = c) (users st) of
               None \<Rightarrow> (Inr None, st1)
             | Some u \<Rightarrow>
                 (let u' = apply_user_body b u in
                  if list_ex (\<lambda>w. u_id w \<noteq> c \<and> u_email w = u_email u') (users st) then
                    (Inl (MongoServerError 11000 ''E11000 duplicate key error''), st1)
                  else
                    (Inr (Some u'),
                     st1\<lparr>users := upd_first (\<lambda>w. u_id w = c) (\<lambda>w. u') (users st)\<rparr>))))"

text \<open>
  \<^verbatim>\<open>User.findByIdAndUpdate(id, {$push: {pendingTasks: t}})\<close> appends \<open>t\<close>;
  \<^verbatim>\<open>{$pull: {pendingTasks: t}}\<close> removes every occurrence of \<open>t\<close>.  Both return the
  document as it was, or \<^verbatim>\<open>null\<close> when no User has the identifier.
\<close>

definition push_pending :: "string \<Rightarrow> string \<Rightarrow> user list \<Rightarrow> user list" where
  "push_pending c t us =
     upd_first (\<lambda>w. u_id w = c) (\<lambda>w. w\<lparr>u_pendingTasks := u_pendingTasks w @ [t]\<rparr>) us"

definition pull_pending :: "string \<Rightarrow> string \<Rightarrow> user list \<Rightarrow> user list" where
  "pull_pending c t us =
     upd_first (\<lambda>w. u_id w = c)
       (\<lambda>w. w\<lparr>u_pendingTasks := removeAll t (u_pendingTasks w)\<rparr>) us"

definition User_push :: "adapter \<Rightarrow> db \<Rightarrow> string \<Rightarrow> string \<Rightarrow> (err + user option) \<times> db" where
  "User_push ad st uid t =
     (let st1 = logop (UserPush uid t) st in
      case cast_id ad uid of
        None \<Rightarrow> (Inl (cast_error uid), st1)
      | Some c \<Rightarrow>
          (Inr (List.find (\<lambda>u. u_id u = c) (users st)),
           st1\<lparr>users := push_pending c t (users st)\<rparr>))"

definition User_pull :: "adapter \<Rightarrow> db \<Rightarrow> string \<Rightarrow> string \<Rightarrow> (err + user option) \<times> db" where
  "User_pull ad st uid t =
     (let st1 = logop (UserPull uid t) st in
      case cast_id ad uid of
        None \<Rightarrow> (Inl (cast_error uid), st1)
      | Some c \<Rightarrow>
          (Inr (List.find (\<lambda>u. u_id u = c) (users st)),
           st1\<lparr>users := pull_pending c t (users st)\<rparr>))"

definition User_findByIdAndDelete ::
  "adapter \<Rightarrow> db \<Rightarrow> string \<Rightarrow> (err + user option) \<times> db" where
  "User_findByIdAndDelete ad st uid =
     (let st1 = logop (UserFindByIdAndDelete uid) st in
      case cast_id ad uid of
        None \<Rightarrow> (Inl (cast_error uid), st1)
      | Some c \<Rightarrow>
          (Inr (List.find (\<lambda>u. u_id u = c) (users st)),
           st1\<lparr>users := del_first (\<lambda>w. u_id w = c) (users st)\<rparr>))"

subsection \<open>The Task model\<close>

definition Task_save :: "db \<Rightarrow> task \<Rightarrow> (err + unit) \<times> db" where
  "Task_save st t =
     (let st1 = logop (TaskSave t) st in
      if t_name t = [] then
        (Inl (ValidationError ''Task validation failed''), st1)
      else if list_ex (\<lambda>w. t_id w = t_id t) (tasks st) then
        (Inl (MongoServerError 11000 ''E11000 duplicate key error''), st1)
      else (Inr (), st1\<lparr>tasks := tasks st @ [t]\<rparr>))"

definition Task_countDocuments :: "adapter \<Rightarrow> db \<Rightarrow> json \<Rightarrow> (err + nat) \<times> db" where
  "Task_countDocuments ad st w =
     (run_count (task_engine ad) w (tasks st), logop (TaskCountDocuments w) st)"

definition Task_find :: "adapter \<Rightarrow> db \<Rightarrow> find_query \<Rightarrow> (err + task list) \<times> db" where
  "Task_find ad st q = (run_find (task_engine ad) q (tasks st), logop (TaskFind q) st)"

definition Task_findById ::
  "adapter \<Rightarrow> db \<Rightarrow> string \<Rightarrow> json option \<Rightarrow> (err + task option) \<times> db" where
  "Task_findById ad st tid sel =
     (let st1 = logop (TaskFindById tid sel) st in
      case cast_id ad tid of
        None \<Rightarrow> (Inl (cast_error tid), st1)
      | Some c \<Rightarrow>
          (case List.find (\<lambda>t. t_id t = c) (tasks st) of
             None \<Rightarrow> (Inr None, st1)
           | Some t \<Rightarrow>
               (Inr (Some (case sel of None \<Rightarrow> t | Some p \<Rightarrow> e_proj (task_engine ad) p t)),
                st1)))"

definition apply_task_body :: "task_body \<Rightarrow> task \<Rightarrow> task" where
  "apply_task_body b t =
     (let t1 = (case tb_name b of None \<Rightarrow> t | Some n \<Rightarrow> t\<lparr>t_name := n\<rparr>);
          t2 = (case tb_deadline b of None \<Rightarrow> t1 | Some d \<Rightarrow> t1\<lparr>t_deadline := d\<rparr>);
          t3 = (case tb_description b of None \<Rightarrow> t2 | Some d \<Rightarrow> t2\<lparr>t_description := Some d\<rparr>);
          t4 = (case tb_completed b of None \<Rightarrow> t3 | Some c \<Rightarrow> t3\<lparr>t_completed := c\<rparr>);
          t5 = (case tb_assignedUser b of None \<Rightarrow> t4 | Some a \<Rightarrow> t4\<lparr>t_assignedUser := a\<rparr>)
      in case tb_assignedUserName b of None \<Rightarrow> t5 | Some a \<Rightarrow> t5\<lparr>t_assignedUserName := a\<rparr>)"

text \<open>
  \<^verbatim>\<open>Task.findByIdAndUpdate(id, body, {new: true, runValidators: true})\<close>: as for Users,
  without a unique index.
\<close>

definition Task_findByIdAndUpdate ::
  "adapter \<Rightarrow> db \<Rightarrow> string \<Rightarrow> task_body \<Rightarrow> (err + task option) \<times> db" where
  "Task_findByIdAndUpdate ad st tid b =
     (let st1 = logop (TaskFindByIdAndUpdate tid b) st in
      case cast_id ad tid of
        None \<Rightarrow> (Inl (cast_error tid), st1)
      | Some c \<Rightarrow>
          if tb_name b = Some [] then
            (Inl (ValidationError ''Validation failed''), st1)
          else
            (case List.find (\<lambda>t. t_id t = c) (tasks st) of
               None \<Rightarrow> (Inr None, st1)
             | Some t \<Rightarrow>
                 (Inr (Some (apply_task_body b t)),
                  st1\<lparr>tasks := upd_first (\<lambda>w. t_id w = c) (apply_task_body b) (tasks st)\<rparr>)))"

definition Task_findByIdAndDelete ::
  "adapter \<Rightarrow> db \<Rightarrow> string \<Rightarrow> (err + task option) \<times> db" where
  "Task_findByIdAndDelete ad st tid =
     (let st1 = logop (TaskFindByIdAndDelete tid) st in
      case cast_id ad tid of
        None \<Rightarrow> (Inl (cast_error tid), st1)
      | Some c \<Rightarrow>
          (Inr (List.find (\<lambda>t. t_id t = c) (tasks st)),
           st1\<lparr>tasks := del_first (\<lambda>w. t_id w = c) (tasks st)\<rparr>))"

definition unassign :: "task \<Rightarrow> task" where
  "unassign t = t\<lparr>t_assignedUser := [], t_assignedUserName := ''unassigned''\<rparr>"

text \<open>
  \<^verbatim>\<open>Task.updateMany({_id: {$in: ids}}, {$set: {assignedUser: "", assignedUserName:
  "unassigned"}})\<close>: every element of the filter is cast to an identifier, and one that
  does not cast rejects the whole call; otherwise every Task whose identifier is among
  them is unassigned.
\<close>

definition Task_unassignMany :: "adapter \<Rightarrow> db \<Rightarrow> string list \<Rightarrow> (err + unit) \<times> db" where
  "Task_unassignMany ad st ids =
     (let st1 = logop (TaskUnassignMany ids) st in
      case List.find (\<lambda>i. cast_id ad i = None) ids of
        Some bad \<Rightarrow> (Inl (cast_error bad), st1)
      | None \<Rightarrow>
          (Inr (),
           st1\<lparr>tasks := map (\<lambda>t. if t_id t \<in> set (List.map_filter (cast_id ad) ids)
                                  then unassign t else t) (tasks st)\<rparr>))"

section \<open>The User handlers (routes/users.js)\<close>

text \<open>The \<^verbatim>\<open>catch\<close> of POST /users and PUT /users/:id.\<close>

definition users_write_catch :: "err \<Rightarrow> response" where
  "users_write_catch e =
     (if err_code e = Some 11000 then respond 400 ''Email already exists.'' DEmpty
      else if err_name e = ''ValidationError'' then
        respond 400 (''Validation Error: '' @ err_message e) DEmpty
      else respond 500 ''Server error.'' DEmpty)"

text \<open>The \<^verbatim>\<open>catch\<close> of GET /users and GET /users/:id.\<close>

definition users_read_catch :: "err \<Rightarrow> response" where
  "users_read_catch e =
     (if err_name e = ''CastError'' then respond 404 ''User not found.'' DEmpty
      else respond 500 (''Server error: '' @ err_message e) DEmpty)"

text \<open>The \<^verbatim>\<open>catch\<close> that answers 500 with the error's message.\<close>

definition server_error_catch :: "err \<Rightarrow> response" where
  "server_error_catch e = respond 500 (''Server error: '' @ err_message e) DEmpty"

text \<open>
  POST /users.  The document of lines 34 to 39 is \<open>build_user\<close>: \<open>pendingTasks\<close> is
  the body's array when the body has one (an array is truthy, also when empty), else
  the schema's default.
\<close>

definition build_user :: "env \<Rightarrow> string \<Rightarrow> string \<Rightarrow> user_body \<Rightarrow> user" where
  "build_user ev n e body =
     \<lparr>u_id = fresh_id ev, u_name = n, u_email = e,
      u_pendingTasks = (case ub_pendingTasks body of None \<Rightarrow> [] | Some ps \<Rightarrow> ps),
      u_dateCreated = now ev\<rparr>"

definition users_post :: "env \<Rightarrow> db \<Rightarrow> user_body \<Rightarrow> response \<times> db" where
  "users_post ev st body =
     (let missing = (respond 400
            ''Validation Error: 'name' and 'email' are required fields.'' DEmpty, st) in
      case ub_name body of
        None \<Rightarrow> missing
      | Some n \<Rightarrow>
          if n = [] then missing
          else
            (case ub_email body of
               None \<Rightarrow> missing
             | Some e \<Rightarrow>
                 if e = [] then missing
                 else
                   (let user = build_user ev n e body
                    in case User_save st user of
                         (Inl er, st1) \<Rightarrow> (users_write_catch er, st1)
                       | (Inr x, st1) \<Rightarrow> (respond 201 ''User created!'' (DUser user), st1))))"

text \<open>
  \<^verbatim>\<open>req.query.p ? JSON.parse(req.query.p) : {}\<close>; \<open>None\<close> stands for the
  \<^verbatim>\<open>SyntaxError\<close> the inner \<^verbatim>\<open>try\<close> catches.
\<close>

fun parse_param :: "qjson \<Rightarrow> json option" where
  "parse_param QAbsent = Some (JObj [])"
| "parse_param QEmpty = Some (JObj [])"
| "parse_param QInvalid = None"
| "parse_param (QJson j) = Some j"

text \<open>\<^verbatim>\<open>req.query.p ? parseInt(req.query.p) : d\<close>.\<close>

fun num_param :: "(jsstring \<Rightarrow> jsnum) \<Rightarrow> jsstring option \<Rightarrow> int \<Rightarrow> jsnum" where
  "num_param pint None d = JsNum d"
| "num_param pint (Some s) d = (if s = [] then JsNum d else pint s)"

text \<open>
  The query built by \<^verbatim>\<open>find(where)\<close> followed by the four guarded calls
  \<^verbatim>\<open>if (sort) ...\<close>, \<^verbatim>\<open>if (select) ...\<close>, \<^verbatim>\<open>if (skip) ...\<close>, \<^verbatim>\<open>if (limit) ...\<close>.
\<close>

definition build_query :: "json \<Rightarrow> json \<Rightarrow> json \<Rightarrow> jsnum \<Rightarrow> jsnum \<Rightarrow> find_query" where
  "build_query wh so se skip limit =
     \<lparr>fq_where = wh,
      fq_sort = (if truthy_json so then Some so else None),
      fq_select = (if truthy_json se then Some se else None),
      fq_skip = (if truthy_num skip then Some skip else None),
      fq_limit = (if truthy_num limit then Some limit else None)\<rparr>"

definition bad_query :: response where
  "bad_query = respond 400
     ''Bad Request: Invalid JSON in 'where', 'sort', or 'select' query parameter.'' DEmpty"

definition bad_select :: response where
  "bad_select = respond 400 ''Bad Request: Invalid JSON in 'select' query parameter.'' DEmpty"

text \<open>GET /users.\<close>

definition users_get :: "adapter \<Rightarrow> db \<Rightarrow> list_query \<Rightarrow> response \<times> db" where
  "users_get ad st q =
     (case parse_param (q_where q) of
        None \<Rightarrow> (bad_query, st)
      | Some wh \<Rightarrow>
     (case parse_param (q_sort q) of
        None \<Rightarrow> (bad_query, st)
      | Some so \<Rightarrow>
     (case parse_param (q_select q) of
        None \<Rightarrow> (bad_query, st)
      | Some se \<Rightarrow>
          (let skip = num_param (host_parseInt ad) (q_skip q) 0;
               limit = num_param (host_parseInt ad) (q_limit q) 0;
               count = (q_count q = Some ''true'')
           in if count then
                (case User_countDocuments ad st wh of
                   (Inl er, st1) \<Rightarrow> (users_read_catch er, st1)
                 | (Inr n, st1) \<Rightarrow> (respond 200 ''OK'' (DCount n), st1))
              else
                (case User_find ad st (build_query wh so se skip limit) of
                   (Inl er, st1) \<Rightarrow> (users_read_catch er, st1)
                 | (Inr us, st1) \<Rightarrow> (respond 200 ''OK'' (DUsers us), st1))))))"

text \<open>GET /users/:id.\<close>

definition users_id_get :: "adapter \<Rightarrow> db \<Rightarrow> string \<Rightarrow> qjson \<Rightarrow> response \<times> db" where
  "users_id_get ad st uid sel =
     (case parse_param sel of
        None \<Rightarrow> (bad_select, st)
      | Some se \<Rightarrow>
          (case object_keys_length se of
             Inl er \<Rightarrow> (users_read_catch er, st)
           | Inr k \<Rightarrow>
               (case User_findById ad st uid (if k > 0 then Some se else None) of
                  (Inl er, st1) \<Rightarrow> (users_read_catch er, st1)
                | (Inr None, st1) \<Rightarrow> (respond 404 ''User not found.'' DEmpty, st1)
                | (Inr (Some u), st1) \<Rightarrow> (respond 200 ''OK'' (DUser u), st1))))"

text \<open>PUT /users/:id.\<close>

definition users_id_put :: "adapter \<Rightarrow> db \<Rightarrow> string \<Rightarrow> user_body \<Rightarrow> response \<times> db" where
  "users_id_put ad st uid body =
     (case User_findByIdAndUpdate ad st uid body of
        (Inl er, st1) \<Rightarrow> (users_write_catch er, st1)
      | (Inr None, st1) \<Rightarrow> (respond 404 ''User not found.'' DEmpty, st1)
      | (Inr (Some u), st1) \<Rightarrow> (respond 200 ''User updated!'' (DUser u), st1))"

text \<open>DELETE /users/:id.\<close>

definition users_id_delete :: "adapter \<Rightarrow> db \<Rightarrow> string \<Rightarrow> response \<times> db" where
  "users_id_delete ad st uid =
     (case User_findByIdAndDelete ad st uid of
        (Inl er, st1) \<Rightarrow> (server_error_catch er, st1)
      | (Inr None, st1) \<Rightarrow> (respond 404 ''User not found.'' DEmpty, st1)
      | (Inr (Some du), st1) \<Rightarrow>
          (let done = respond 200
                 ''User deleted! All associated tasks have been unassigned.'' (DUser du) in
           if u_pendingTasks du \<noteq> [] then
             (case Task_unassignMany ad st1 (u_pendingTasks du) of
                (Inl er, st2) \<Rightarrow> (server_error_catch er, st2)
              | (Inr x, st2) \<Rightarrow> (done, st2))
           else (done, st1)))"

section \<open>The Task handlers (routes/tasks.js)\<close>

text \<open>The \<^verbatim>\<open>catch\<close> of POST /tasks and PUT /tasks/:id.\<close>

definition tasks_write_catch :: "err \<Rightarrow> response" where
  "tasks_write_catch e =
     (if err_name e = ''ValidationError'' then
        respond 400 (''Validation Error: '' @ err_message e) DEmpty
      else respond 500 ''Server error.'' DEmpty)"

text \<open>
  POST /tasks.  The document of lines 37 to 44 is \<open>build_task\<close>: each optional field
  is copied when the body's value is truthy and keeps the schema's default otherwise.
\<close>

definition build_task :: "env \<Rightarrow> string \<Rightarrow> int \<Rightarrow> task_body \<Rightarrow> task" where
  "build_task ev n d body =
     \<lparr>t_id = fresh_id ev, t_name = n, t_deadline = d,
      t_description =
        (case tb_description body of None \<Rightarrow> None
         | Some x \<Rightarrow> if x = [] then None else Some x),
      t_completed = (tb_completed body = Some True),
      t_assignedUser = (case tb_assignedUser body of None \<Rightarrow> [] | Some a \<Rightarrow> a),
      t_assignedUserName =
        (case tb_assignedUserName body of None \<Rightarrow> ''unassigned''
         | Some a \<Rightarrow> if a = [] then ''unassigned'' else a)\<rparr>"

definition tasks_post :: "adapter \<Rightarrow> env \<Rightarrow> db \<Rightarrow> task_body \<Rightarrow> response \<times> db" where
  "tasks_post ad ev st body =
     (let missing = (respond 400
            ''Validation Error: 'name' and 'deadline' are required fields.'' DEmpty, st) in
      case tb_name body of
        None \<Rightarrow> missing
      | Some n \<Rightarrow>
          if n = [] then missing
          else
            (case tb_deadline body of
               None \<Rightarrow> missing
             | Some d \<Rightarrow>
                 if d = 0 then missing
                 else
                   (let task = build_task ev n d body;
                        created = respond 201 ''Task created!'' (DTask task)
                    in case Task_save st task of
                         (Inl er, st1) \<Rightarrow> (tasks_write_catch er, st1)
                       | (Inr x, st1) \<Rightarrow>
                           if t_assignedUser task \<noteq> [] \<and> \<not> t_completed task then
                             (case User_push ad st1 (t_assignedUser task) (t_id task) of
                                (Inl er, st2) \<Rightarrow> (tasks_write_catch er, st2)
                              | (Inr y, st2) \<Rightarrow> (created, st2))
                           else (created, st1))))"

text \<open>GET /tasks: as GET /users, with the default limit 100 and the plain catch.\<close>

definition tasks_get :: "adapter \<Rightarrow> db \<Rightarrow> list_query \<Rightarrow> response \<times> db" where
  "tasks_get ad st q =
     (case parse_param (q_where q) of
        None \<Rightarrow> (bad_query, st)
      | Some wh \<Rightarrow>
     (case parse_param (q_sort q) of
        None \<Rightarrow> (bad_query, st)
      | Some so \<Rightarrow>
     (case parse_param (q_select q) of
        None \<Rightarrow> (bad_query, st)
      | Some se \<Rightarrow>
          (let skip = num_param (host_parseInt ad) (q_skip q) 0;
               limit = num_param (host_parseInt ad) (q_limit q) 100;
               count = (q_count q = Some ''true'')
           in if count then
                (case Task_countDocuments ad st wh of
                   (Inl er, st1) \<Rightarrow> (server_error_catch er, st1)
                 | (Inr n, st1) \<Rightarrow> (respond 200 ''OK'' (DCount n), st1))
              else
                (case Task_find ad st (build_query wh so se skip limit) of
                   (Inl er, st1) \<Rightarrow> (server_error_catch er, st1)
                 | (Inr ts, st1) \<Rightarrow> (respond 200 ''OK'' (DTasks ts), st1))))))"

text \<open>GET /tasks/:id.\<close>

definition tasks_id_get :: "adapter \<Rightarrow> db \<Rightarrow> string \<Rightarrow> qjson \<Rightarrow> response \<times> db" where
  "tasks_id_get ad st tid sel =
     (case parse_param sel of
        None \<Rightarrow> (bad_select, st)
      | Some se \<Rightarrow>
          (case object_keys_length se of
             Inl er \<Rightarrow> (server_error_catch er, st)
           | Inr k \<Rightarrow>
               (case Task_findById ad st tid (if k > 0 then Some se else None) of
                  (Inl er, st1) \<Rightarrow> (server_error_catch er, st1)
                | (Inr None, st1) \<Rightarrow> (respond 404 ''Task not found.'' DEmpty, st1)
                | (Inr (Some t), st1) \<Rightarrow> (respond 200 ''OK'' (DTask t), st1))))"

text \<open>
  PUT /tasks/:id.  The second \<^verbatim>\<open>if\<close> of the branch for a changed assignment
  (lines 256 to 262) is \<open>put_add_new\<close>.
\<close>

definition put_add_new ::
  "adapter \<Rightarrow> db \<Rightarrow> string \<Rightarrow> bool \<Rightarrow> string \<Rightarrow> response \<Rightarrow> response \<times> db" where
  "put_add_new ad st newUserId isCompleted taskId ok =
     (if newUserId \<noteq> [] \<and> \<not> isCompleted then
        (case User_push ad st newUserId taskId of
           (Inl er, st1) \<Rightarrow> (tasks_write_catch er, st1)
         | (Inr x, st1) \<Rightarrow> (ok, st1))
      else (ok, st))"

definition tasks_id_put :: "adapter \<Rightarrow> db \<Rightarrow> string \<Rightarrow> task_body \<Rightarrow> response \<times> db" where
  "tasks_id_put ad st taskId newBody =
     (case Task_findById ad st taskId None of
        (Inl er, st1) \<Rightarrow> (tasks_write_catch er, st1)
      | (Inr None, st1) \<Rightarrow> (respond 404 ''Task not found.'' DEmpty, st1)
      | (Inr (Some oldTask), st1) \<Rightarrow>
          (case Task_findByIdAndUpdate ad st1 taskId newBody of
             (Inl er, st2) \<Rightarrow> (tasks_write_catch er, st2)
           | (Inr None, st2) \<Rightarrow>
               (tasks_write_catch (TypeError ''Cannot read properties of null''), st2)
           | (Inr (Some updatedTask), st2) \<Rightarrow>
               (let oldUserId = t_assignedUser oldTask;
                    newUserId = t_assignedUser updatedTask;
                    wasCompleted = t_completed oldTask;
                    isCompleted = t_completed updatedTask;
                    ok = respond 200 ''Task updated!'' (DTask updatedTask)
                in if oldUserId \<noteq> newUserId then
                     (if oldUserId \<noteq> [] then
                        (case User_pull ad st2 oldUserId taskId of
                           (Inl er, st3) \<Rightarrow> (tasks_write_catch er, st3)
                         | (Inr x, st3) \<Rightarrow> put_add_new ad st3 newUserId isCompleted taskId ok)
                      else put_add_new ad st2 newUserId isCompleted taskId ok)
                   else if newUserId \<noteq> [] \<and> wasCompleted \<noteq> isCompleted then
                     (if isCompleted then
                        (case User_pull ad st2 newUserId taskId of
                           (Inl er, st3) \<Rightarrow> (tasks_write_catch er, st3)
                         | (Inr x, st3) \<Rightarrow> (ok, st3))
                      else
                        (case User_push ad st2 newUserId taskId of
                           (Inl er, st3) \<Rightarrow> (tasks_write_catch er, st3)
                         | (Inr x, st3) \<Rightarrow> (ok, st3)))
                   else (ok, st2))))"

text \<open>DELETE /tasks/:id.\<close>

definition tasks_id_delete :: "adapter \<Rightarrow> db \<Rightarrow> string \<Rightarrow> response \<times> db" where
  "tasks_id_delete ad st tid =
     (case Task_findByIdAndDelete ad st tid of
        (Inl er, st1) \<Rightarrow> (server_error_catch er, st1)
      | (Inr None, st1) \<Rightarrow> (respond 404 ''Task not found.'' DEmpty, st1)
      | (Inr (Some dt), st1) \<Rightarrow>
          (let done = respond 200 ''Task deleted!'' (DTask dt) in
           if t_assignedUser dt \<noteq> [] then
             (case User_pull ad st1 (t_assignedUser dt) (t_id dt) of
                (Inl er, st2) \<Rightarrow> (server_error_catch er, st2)
              | (Inr x, st2) \<Rightarrow> (done, st2))
           else (done, st1)))"

section \<open>A concrete store for the examples\<close>

text \<open>
  An identifier cast: exactly 24 hexadecimal digits, stored in lower case.  The
  engine of the examples selects every document, keeps the insertion order and
  projects nothing, which is what the store does on the empty filter, sort and
  projection; the examples give it no skip or limit that is not ordinary, and it
  rejects those.
\<close>

definition lower_hex :: "char \<Rightarrow> char" where
  "lower_hex c =
     (if c = CHR ''A'' then CHR ''a'' else if c = CHR ''B'' then CHR ''b''
      else if c = CHR ''C'' then CHR ''c'' else if c = CHR ''D'' then CHR ''d''
      else if c = CHR ''E'' then CHR ''e'' else if c = CHR ''F'' then CHR ''f'' else c)"

definition objectid_cast :: "string \<Rightarrow> string option" where
  "objectid_cast s =
     (if length s = 24 \<and> list_all (\<lambda>c. digit_val (of_char c) < 16) s then Some (map lower_hex s)
      else None)"

definition plain_engine :: "'d engine" where
  "plain_engine =
     \<lparr>e_reject = (\<lambda>w s p. None), e_sat = (\<lambda>w d. True),
      e_order = (\<lambda>s ds. ds), e_proj = (\<lambda>p d. d),
      e_page = (\<lambda>s l ds. Inl (MongoServerError 2 ''BadValue''))\<rparr>"

definition plain_store :: adapter where
  "plain_store =
     \<lparr>cast_id = objectid_cast, user_engine = plain_engine, task_engine = plain_engine,
      host_parseInt = js_parseInt\<rparr>"

definition uid1 :: string where "uid1 = ''aaaaaaaaaaaaaaaaaaaaaaa1''"
definition uid2 :: string where "uid2 = ''aaaaaaaaaaaaaaaaaaaaaaa2''"
definition tid1 :: string where "tid1 = ''bbbbbbbbbbbbbbbbbbbbbbb1''"
definition tid2 :: string where "tid2 = ''bbbbbbbbbbbbbbbbbbbbbbb2''"

definition tid3 :: string where "tid3 = ''cccccccccccccccccccccccc''"

text \<open>The id of the first Task written in upper case: it casts to \<open>tid1\<close>.\<close>

definition TID1 :: string where "TID1 = ''BBBBBBBBBBBBBBBBBBBBBBB1''"

definition alice :: user where
  "alice = \<lparr>u_id = uid1, u_name = ''alice'', u_email = ''alice@example.com'',
             u_pendingTasks = [tid1], u_dateCreated = 1\<rparr>"

definition bob :: user where
  "bob = \<lparr>u_id = uid2, u_name = ''bob'', u_email = ''bob@example.com'',
           u_pendingTasks = [], u_dateCreated = 2\<rparr>"

definition task1 :: task where
  "task1 = \<lparr>t_id = tid1, t_name = ''write'', t_deadline = 100, t_description = None,
             t_completed = False, t_assignedUser = uid1, t_assignedUserName = ''alice''\<rparr>"

definition task2 :: task where
  "task2 = \<lparr>t_id = tid2, t_name = ''read'', t_deadline = 200, t_description = None,
             t_completed = True, t_assignedUser = uid1, t_assignedUserName = ''alice''\<rparr>"

definition db0 :: db where
  "db0 = \<lparr>users = [alice, bob], tasks = [task1, task2], oplog = []\<rparr>"

definition env3 :: env where
  "env3 = \<lparr>fresh_id = tid3, now = 3\<rparr>"

definition no_query :: list_query where
  "no_query = \<lparr>q_where = QAbsent, q_sort = QAbsent, q_select = QAbsent,
                q_skip = None, q_limit = None, q_count = None\<rparr>"

definition no_user_body :: user_body where
  "no_user_body = \<lparr>ub_name = None, ub_email = None, ub_pendingTasks = None\<rparr>"

definition no_task_body :: task_body where
  "no_task_body = \<lparr>tb_name = None, tb_deadline = None, tb_description = None,
                    tb_completed = None, tb_assignedUser = None, tb_assignedUserName = None\<rparr>"

section \<open>The pendingTasks mirror\<close>

text \<open>
  The effect the specification calls adding a Task id to, and removing it from, the
  \<open>pendingTasks\<close> of the User an \<open>assignedUser\<close> string names: the User whose identifier
  the string casts to, if there is one.
\<close>

definition add_pending :: "adapter \<Rightarrow> string \<Rightarrow> string \<Rightarrow> user list \<Rightarrow> user list" where
  "add_pending ad uid t us =
     (case cast_id ad uid of None \<Rightarrow> us | Some c \<Rightarrow> push_pending c t us)"

definition remove_pending :: "adapter \<Rightarrow> string \<Rightarrow> string \<Rightarrow> user list \<Rightarrow> user list" where
  "remove_pending ad uid t us =
     (case cast_id ad uid of None \<Rightarrow> us | Some c \<Rightarrow> pull_pending c t us)"

text \<open>
  The reconciliation policy of a Task update in the words of the specification
  (section 4.3): what the Users are afterwards, and which User writes are issued, as a
  function of the Task before (\<open>old\<close>) and after (\<open>new\<close>) the update.
\<close>

definition reconciled_users ::
  "adapter \<Rightarrow> string \<Rightarrow> task \<Rightarrow> task \<Rightarrow> user list \<Rightarrow> user list" where
  "reconciled_users ad tid old new us =
     (if t_assignedUser new \<noteq> t_assignedUser old then
        (let us1 = (if t_assignedUser old \<noteq> []
                    then remove_pending ad (t_assignedUser old) tid us else us)
         in if t_assignedUser new \<noteq> [] \<and> \<not> t_completed new
            then add_pending ad (t_assignedUser new) tid us1 else us1)
      else if t_assignedUser new \<noteq> [] \<and> t_completed new \<noteq> t_completed old then
        (if t_completed new then remove_pending ad (t_assignedUser new) tid us
         else add_pending ad (t_assignedUser new) tid us)
      else us)"

definition reconcile_writes :: "string \<Rightarrow> task \<Rightarrow> task \<Rightarrow> op list" where
  "reconcile_writes tid old new =
     (if t_assignedUser new \<noteq> t_assignedUser old then
        (if t_assignedUser old \<noteq> [] then [UserPull (t_assignedUser old) tid] else []) @
        (if t_assignedUser new \<noteq> [] \<and> \<not> t_completed new
         then [UserPush (t_assignedUser new) tid] else [])
      else if t_assignedUser new \<noteq> [] \<and> t_completed new \<noteq> t_completed old then
        (if t_completed new then [UserPull (t_assignedUser new) tid]
         else [UserPush (t_assignedUser new) tid])
      else [])"

text \<open>
  The invariant of section 3: a User's \<open>pendingTasks\<close> holds a Task id exactly when
  some Task with that id is assigned to the User and not completed.
\<close>

definition mirror_inv :: "db \<Rightarrow> bool" where
  "mirror_inv st =
     list_all (\<lambda>u.
        list_all (\<lambda>t. list_ex (\<lambda>k. t_id k = t \<and> t_assignedUser k = u_id u \<and> \<not> t_completed k)
                          (tasks st)) (u_pendingTasks u) \<and>
        list_all (\<lambda>k. \<not> (t_assignedUser k = u_id u \<and> \<not> t_completed k) \<or>
                        t_id k \<in> set (u_pendingTasks u)) (tasks st))
       (users st)"

text \<open>
  The skip, respectively the limit, that a list handler passes to the store, as a
  function of the host's \<^verbatim>\<open>parseInt\<close>, of the query parameter and of the handler's
  default; \<open>None\<close> means that the handler does not make the call, so that nothing is
  skipped, respectively the result is not limited.  A parameter that is absent, or
  present with the empty string as its value, gives the default; a non-empty parameter
  that \<^verbatim>\<open>parseInt\<close> reads as \<^verbatim>\<open>NaN\<close> or as zero gives none; any other gives the Number
  \<^verbatim>\<open>parseInt\<close> reads.
\<close>

definition paging ::
  "(jsstring \<Rightarrow> jsnum) \<Rightarrow> jsstring option \<Rightarrow> jsnum option \<Rightarrow> jsnum option" where
  "paging pint p dflt =
     (case p of
        None \<Rightarrow> dflt
      | Some s \<Rightarrow>
          if s = [] then dflt
          else if truthy_num (pint s) then Some (pint s) else None)"

text \<open>A store of 101 Tasks, for the limit of GET /tasks.\<close>

definition hex_digit :: "nat \<Rightarrow> char" where
  "hex_digit k = ''0123456789abcdef'' ! (k mod 16)"

definition numbered_task :: "nat \<Rightarrow> task" where
  "numbered_task i =
     \<lparr>t_id = replicate 22 CHR ''0'' @ [hex_digit (i div 16), hex_digit i], t_name = ''task'',
      t_deadline = 1, t_description = None, t_completed = False, t_assignedUser = [],
      t_assignedUserName = ''unassigned''\<rparr>"

definition db101 :: db where
  "db101 = \<lparr>users = [], tasks = map numbered_task [0..<101], oplog = []\<rparr>"

text \<open>The number of documents a response carries.\<close>

fun data_length :: "rdata \<Rightarrow> nat" where
  "data_length (DUsers us) = length us"
| "data_length (DTasks ts) = length ts"
| "data_length d = 0"

section \<open>Properties\<close>

lemmas store_defs = User_save_def User_countDocuments_def User_find_def User_findById_def
  User_findByIdAndUpdate_def User_push_def User_pull_def User_findByIdAndDelete_def
  Task_save_def Task_countDocuments_def Task_find_def Task_findById_def
  Task_findByIdAndUpdate_def Task_findByIdAndDelete_def Task_unassignMany_def logop_def

lemmas handler_defs = users_post_def users_get_def users_id_get_def users_id_put_def
  users_id_delete_def tasks_post_def tasks_get_def tasks_id_get_def tasks_id_put_def
  tasks_id_delete_def put_add_new_def users_write_catch_def users_read_catch_def
  server_error_catch_def tasks_write_catch_def respond_def bad_query_def bad_select_def
  build_user_def build_task_def build_query_def cast_error_def push_pending_def
  pull_pending_def unassign_def apply_user_body_def apply_task_body_def run_find_def
  run_count_def

lemmas example_defs = plain_store_def plain_engine_def objectid_cast_def lower_hex_def
  digit_val_def uid1_def uid2_def tid1_def tid2_def tid3_def TID1_def alice_def bob_def
  task1_def task2_def db0_def env3_def no_query_def no_user_body_def no_task_body_def

lemmas parse_defs = js_parseInt_def is_space_unit_def digit_val_def round_double_def
  units_def Let_def

subsection \<open>Host functions and the example store\<close>

lemma bit_length_small: "n < 2 ^ k \<Longrightarrow> bit_length n \<le> k"
proof (induction k arbitrary: n)
  case 0
  then show ?case by simp
next
  case (Suc k)
  show ?case
  proof (cases "n = 0")
    case True
    then show ?thesis by simp
  next
    case False
    from Suc.prems have "n div 2 < 2 ^ k" by simp
    from Suc.IH [OF this] False show ?thesis
      by (subst bit_length.simps) simp
  qed
qed

lemma round_double_exact: "n < 2 ^ 53 \<Longrightarrow> round_double n = Some n"
  using bit_length_small [of n 53] by (simp add: round_double_def)

lemma js_parseInt_examples:
  "js_parseInt (units ''abc'') = JsNaN" "js_parseInt (units ''12abc'') = JsNum 12"
  "js_parseInt (units '' -7'') = JsNum (-7)" "js_parseInt (units ''0x1f'') = JsNum 31"
  "js_parseInt [] = JsNaN" "js_parseInt [0xA0, 49] = JsNum 1"
  "js_parseInt (units ''-0'') = JsNum 0" "js_parseInt (units ''0x'') = JsNaN"
  by (simp_all add: js_parseInt_def is_space_unit_def digit_val_def units_def
      round_double_exact)

text \<open>Beyond 53 bits the integer is rounded: \<open>2^53 + 1\<close> is read as \<open>2^53\<close>.\<close>

lemma js_parseInt_rounds:
  "js_parseInt (units ''9007199254740993'') = JsNum 9007199254740992"
  by (simp add: parse_defs)

lemma objectid_cast_examples:
  "objectid_cast uid1 = Some uid1" "objectid_cast ''abc'' = None"
  "objectid_cast ''AAAAAAAAAAAAAAAAAAAAAAA1'' = Some uid1"
  by (simp_all add: example_defs)

subsection \<open>Lists of documents\<close>

lemma find_none_cast:
  "list_all (\<lambda>i. cast_id ad i \<noteq> None) ids \<Longrightarrow>
   List.find (\<lambda>i. cast_id ad i = None) ids = None"
  by (simp add: find_None_iff list_all_iff)

lemma find_SomeD: "List.find P xs = Some x \<Longrightarrow> P x"
  by (auto simp: find_Some_iff)

lemma upd_first_frame:
  "(\<And>d. P d \<Longrightarrow> P (f d)) \<Longrightarrow>
   filter (\<lambda>d. \<not> P d) (upd_first P f ds) = filter (\<lambda>d. \<not> P d) ds"
  by (induction ds) auto

lemma length_upd_first: "length (upd_first P f ds) = length ds"
  by (induction ds) auto

lemma apply_user_body_id: "u_id (apply_user_body b u) = u_id u"
  by (simp add: apply_user_body_def Let_def split: option.splits)

lemma find_upd_first:
  "List.find P xs = Some x \<Longrightarrow> P (f x) \<Longrightarrow> List.find P (upd_first P f xs) = Some (f x)"
  by (induction xs) (auto split: if_splits)

lemma del_first_none: "List.find P xs = None \<Longrightarrow> del_first P xs = xs"
  by (induction xs) (auto split: if_splits)

lemma apply_task_body_id: "t_id (apply_task_body b t) = t_id t"
  by (simp add: apply_task_body_def Let_def split: option.splits)

subsection \<open>The two writes to a User's pendingTasks\<close>

lemma User_pull_eq:
  "User_pull ad st uid t =
     (case cast_id ad uid of
        None \<Rightarrow> (Inl (cast_error uid), st\<lparr>oplog := oplog st @ [UserPull uid t]\<rparr>)
      | Some c \<Rightarrow> (Inr (List.find (\<lambda>u. u_id u = c) (users st)),
           st\<lparr>users := remove_pending ad uid t (users st),
              oplog := oplog st @ [UserPull uid t]\<rparr>))"
  by (simp add: User_pull_def remove_pending_def logop_def Let_def split: option.splits)

lemma User_push_eq:
  "User_push ad st uid t =
     (case cast_id ad uid of
        None \<Rightarrow> (Inl (cast_error uid), st\<lparr>oplog := oplog st @ [UserPush uid t]\<rparr>)
      | Some c \<Rightarrow> (Inr (List.find (\<lambda>u. u_id u = c) (users st)),
           st\<lparr>users := add_pending ad uid t (users st),
              oplog := oplog st @ [UserPush uid t]\<rparr>))"
  by (simp add: User_push_def add_pending_def logop_def Let_def split: option.splits)

lemma add_pending_uncast: "cast_id ad uid = None \<Longrightarrow> add_pending ad uid t us = us"
  by (simp add: add_pending_def)

lemma remove_pending_uncast: "cast_id ad uid = None \<Longrightarrow> remove_pending ad uid t us = us"
  by (simp add: remove_pending_def)

subsection \<open>Deleting a User\<close>

text \<open>
  When an entry of the deleted User's list does not cast to an identifier, the store
  rejects the bulk update: the User is gone, no Task is changed, and the answer is 500.
\<close>

lemma users_id_delete_rejected:
  assumes "cast_id ad uid = Some c"
    and "List.find (\<lambda>u. u_id u = c) (users st) = Some du"
    and "\<not> list_all (\<lambda>i. cast_id ad i \<noteq> None) (u_pendingTasks du)"
  shows "r_status (fst (users_id_delete ad st uid)) = 500 \<and>
         users (snd (users_id_delete ad st uid)) = del_first (\<lambda>w. u_id w = c) (users st) \<and>
         tasks (snd (users_id_delete ad st uid)) = tasks st"
proof -
  from assms(3) obtain bad where
    "List.find (\<lambda>i. cast_id ad i = None) (u_pendingTasks du) = Some bad"
    by (cases "List.find (\<lambda>i. cast_id ad i = None) (u_pendingTasks du)")
       (auto simp: find_None_iff list_all_iff)
  moreover from assms(3) have "u_pendingTasks du \<noteq> []" by auto
  ultimately show ?thesis
    using assms(1,2)
    by (simp add: users_id_delete_def User_findByIdAndDelete_def Task_unassignMany_def
        logop_def Let_def server_error_catch_def respond_def)
qed

text \<open>
  Claim C1, as stated: every DELETE /users/:id on an existing User with a non-empty
  \<open>pendingTasks\<close> unassigns the Tasks of the list and answers 200.  It does not when an
  entry of the list is no well-formed identifier.  POST /users stores the array it is
  given: Carol is created (201) with the list \<^verbatim>\<open>[tid1, "xyz"]\<close>.  Deleting her removes
  her, the store rejects the bulk update, the answer is 500, and the Task \<open>tid1\<close> is as
  before.
\<close>

theorem users_id_delete_cascade_counterexample:
  "r_status (fst (users_post env3 db0
      \<lparr>ub_name = Some ''carol'', ub_email = Some ''carol@example.com'',
       ub_pendingTasks = Some [tid1, ''xyz'']\<rparr>)) = 201 \<and>
   users_id_delete plain_store
     (snd (users_post env3 db0
        \<lparr>ub_name = Some ''carol'', ub_email = Some ''carol@example.com'',
         ub_pendingTasks = Some [tid1, ''xyz'']\<rparr>)) tid3 =
     (server_error_catch (cast_error ''xyz''),
      \<lparr>users = [alice, bob], tasks = [task1, task2],
       oplog = [UserSave \<lparr>u_id = tid3, u_name = ''carol'', u_email = ''carol@example.com'',
                  u_pendingTasks = [tid1, ''xyz''], u_dateCreated = 3\<rparr>,
                UserFindByIdAndDelete tid3, TaskUnassignMany [tid1, ''xyz'']]\<rparr>) \<and>
   r_status (server_error_catch (cast_error ''xyz'')) = 500"
  by (simp add: handler_defs store_defs example_defs Let_def)

text \<open>
  Claim C1, amended.  A DELETE /users/:id on an existing User whose \<open>pendingTasks\<close> is
  not empty and holds only well-formed identifiers removes the User, then makes one
  bulk update over exactly the ids of that list, which sets \<open>assignedUser\<close> to the empty
  string and \<open>assignedUserName\<close> to \<^verbatim>\<open>"unassigned"\<close> on every Task with one of these ids,
  whatever its \<open>completed\<close> flag, leaves every other Task as it was, and answers 200
  with the deleted User.  The two store calls are the whole log of the request.
\<close>

theorem users_id_delete_cascade:
  assumes "cast_id ad uid = Some c"
    and "List.find (\<lambda>u. u_id u = c) (users st) = Some du"
    and "u_pendingTasks du \<noteq> []"
    and "list_all (\<lambda>i. cast_id ad i \<noteq> None) (u_pendingTasks du)"
  shows "users_id_delete ad st uid =
     (respond 200 ''User deleted! All associated tasks have been unassigned.'' (DUser du),
      st\<lparr>users := del_first (\<lambda>w. u_id w = c) (users st),
         tasks := map (\<lambda>t. if t_id t \<in> set (List.map_filter (cast_id ad) (u_pendingTasks du))
                             then t\<lparr>t_assignedUser := [], t_assignedUserName := ''unassigned''\<rparr>
                             else t) (tasks st),
         oplog := oplog st @
           [UserFindByIdAndDelete uid, TaskUnassignMany (u_pendingTasks du)]\<rparr>)"
  using assms
  by (simp add: users_id_delete_def User_findByIdAndDelete_def Task_unassignMany_def logop_def
      Let_def find_none_cast unassign_def)

text \<open>
  Alice holds her open Task in her list, and the store has a third Task, completed and
  assigned to Bob, that she lists too.  Deleting her unassigns the first and the third,
  completed or not, and leaves her completed Task, which she does not list, assigned to
  her.
\<close>

theorem users_id_delete_cascade_witness:
  "users_id_delete plain_store
     \<lparr>users = [alice\<lparr>u_pendingTasks := [tid1, tid3]\<rparr>, bob],
      tasks = [task1, task2,
        \<lparr>t_id = tid3, t_name = ''plan'', t_deadline = 300, t_description = None,
         t_completed = True, t_assignedUser = uid2, t_assignedUserName = ''bob''\<rparr>],
      oplog = []\<rparr> uid1 =
     (\<lparr>r_status = 200,
       r_message = ''User deleted! All associated tasks have been unassigned.'',
       r_data = DUser \<lparr>u_id = uid1, u_name = ''alice'', u_email = ''alice@example.com'',
                  u_pendingTasks = [tid1, tid3], u_dateCreated = 1\<rparr>\<rparr>,
      \<lparr>users = [bob],
       tasks =
         [\<lparr>t_id = tid1, t_name = ''write'', t_deadline = 100, t_description = None,
           t_completed = False, t_assignedUser = [], t_assignedUserName = ''unassigned''\<rparr>,
          \<lparr>t_id = tid2, t_name = ''read'', t_deadline = 200, t_description = None,
           t_completed = True, t_assignedUser = uid1, t_assignedUserName = ''alice''\<rparr>,
          \<lparr>t_id = tid3, t_name = ''plan'', t_deadline = 300, t_description = None,
           t_completed = True, t_assignedUser = [], t_assignedUserName = ''unassigned''\<rparr>],
       oplog = [UserFindByIdAndDelete uid1, TaskUnassignMany [tid1, tid3]]\<rparr>)"
  using users_id_delete_cascade [of plain_store uid1 uid1
      "\<lparr>users = [alice\<lparr>u_pendingTasks := [tid1, tid3]\<rparr>, bob],
        tasks = [task1, task2,
          \<lparr>t_id = tid3, t_name = ''plan'', t_deadline = 300, t_description = None,
           t_completed = True, t_assignedUser = uid2, t_assignedUserName = ''bob''\<rparr>],
        oplog = []\<rparr>"
      "alice\<lparr>u_pendingTasks := [tid1, tid3]\<rparr>"]
  by (simp add: example_defs List.map_filter_def respond_def)

subsection \<open>Updating a User\<close>

text \<open>
  Claim C9.  A PUT /users/:id makes one store call, the update of the addressed User.
  It leaves every Task document as it was, adds and removes no User, and leaves every
  User other than the addressed one as it was, also when the body overwrites
  \<open>pendingTasks\<close>.
\<close>

theorem users_id_put_frame:
  "tasks (snd (users_id_put ad st uid body)) = tasks st \<and>
   oplog (snd (users_id_put ad st uid body)) = oplog st @ [UserFindByIdAndUpdate uid body] \<and>
   length (users (snd (users_id_put ad st uid body))) = length (users st) \<and>
   filter (\<lambda>u. Some (u_id u) \<noteq> cast_id ad uid) (users (snd (users_id_put ad st uid body)))
     = filter (\<lambda>u. Some (u_id u) \<noteq> cast_id ad uid) (users st)"
  by (auto simp: users_id_put_def User_findByIdAndUpdate_def logop_def Let_def
        length_upd_first apply_user_body_id
      dest!: find_SomeD intro!: upd_first_frame split: option.splits)

text \<open>
  Overwriting Alice's list with the id of her completed Task changes her document only:
  no Task is touched and Bob is as before.
\<close>

theorem users_id_put_frame_witness:
  "users_id_put plain_store db0 uid1 (no_user_body\<lparr>ub_pendingTasks := Some [tid2]\<rparr>) =
     (respond 200 ''User updated!'' (DUser (alice\<lparr>u_pendingTasks := [tid2]\<rparr>)),
      \<lparr>users = [alice\<lparr>u_pendingTasks := [tid2]\<rparr>, bob], tasks = [task1, task2],
       oplog = [UserFindByIdAndUpdate uid1 (no_user_body\<lparr>ub_pendingTasks := Some [tid2]\<rparr>)]\<rparr>)"
  using users_id_put_frame [of plain_store db0 uid1 "no_user_body\<lparr>ub_pendingTasks := Some [tid2]\<rparr>"]
  by (simp add: handler_defs store_defs example_defs Let_def)

subsection \<open>Creating a User\<close>

text \<open>
  Claim C10.  A POST /users whose body carries a valid name and e-mail and a
  \<open>pendingTasks\<close> array creates a User whose \<open>pendingTasks\<close> is that array as supplied.
  The only store call is the save of the User: no Task is read or written to check the
  array.  Hence, as soon as an element of the array is not the id of an open Task
  assigned to the new User, the state after the request violates the mirror invariant
  of section 3.  Creation presupposes that the store accepts the save, that is, no User
  holds the e-mail or the fresh identifier.
\<close>

theorem users_post_pending_verbatim:
  assumes "ub_name body = Some n" and "n \<noteq> []" and "ub_email body = Some e" and "e \<noteq> []"
    and "ub_pendingTasks body = Some ps"
    and "\<not> list_ex (\<lambda>w. u_id w = fresh_id ev \<or> u_email w = e) (users st)"
  shows "users_post ev st body =
      (respond 201 ''User created!''
         (DUser \<lparr>u_id = fresh_id ev, u_name = n, u_email = e, u_pendingTasks = ps,
                 u_dateCreated = now ev\<rparr>),
       st\<lparr>users := users st @ [\<lparr>u_id = fresh_id ev, u_name = n, u_email = e,
                                 u_pendingTasks = ps, u_dateCreated = now ev\<rparr>],
          oplog := oplog st @ [UserSave \<lparr>u_id = fresh_id ev, u_name = n, u_email = e,
                                 u_pendingTasks = ps, u_dateCreated = now ev\<rparr>]\<rparr>) \<and>
     (list_ex (\<lambda>t. \<not> list_ex (\<lambda>k. t_id k = t \<and> t_assignedUser k = fresh_id ev \<and>
                                   \<not> t_completed k) (tasks st)) ps
      \<longrightarrow> \<not> mirror_inv (snd (users_post ev st body)))"
proof -
  let ?u = "\<lparr>u_id = fresh_id ev, u_name = n, u_email = e, u_pendingTasks = ps,
             u_dateCreated = now ev\<rparr>"
  have run: "users_post ev st body =
      (respond 201 ''User created!'' (DUser ?u),
       st\<lparr>users := users st @ [?u], oplog := oplog st @ [UserSave ?u]\<rparr>)"
    using assms by (simp add: users_post_def build_user_def User_save_def logop_def Let_def)
  have "\<not> mirror_inv (st\<lparr>users := users st @ [?u], oplog := oplog st @ [UserSave ?u]\<rparr>)"
    if "list_ex (\<lambda>t. \<not> list_ex (\<lambda>k. t_id k = t \<and> t_assignedUser k = fresh_id ev \<and>
                                      \<not> t_completed k) (tasks st)) ps"
    using that by (auto simp: mirror_inv_def list_all_iff list_ex_iff)
  with run show ?thesis by simp
qed

text \<open>
  The example store satisfies the invariant; creating Carol with Alice's open Task in
  her list succeeds and breaks it.
\<close>

theorem users_post_pending_verbatim_witness:
  "mirror_inv db0 \<and>
   users_post env3 db0 \<lparr>ub_name = Some ''carol'', ub_email = Some ''carol@example.com'',
                        ub_pendingTasks = Some [tid1]\<rparr> =
     (respond 201 ''User created!''
        (DUser \<lparr>u_id = tid3, u_name = ''carol'', u_email = ''carol@example.com'',
                u_pendingTasks = [tid1], u_dateCreated = 3\<rparr>),
      \<lparr>users = [alice, bob, \<lparr>u_id = tid3, u_name = ''carol'', u_email = ''carol@example.com'',
                u_pendingTasks = [tid1], u_dateCreated = 3\<rparr>],
       tasks = [task1, task2],
       oplog = [UserSave \<lparr>u_id = tid3, u_name = ''carol'', u_email = ''carol@example.com'',
                u_pendingTasks = [tid1], u_dateCreated = 3\<rparr>]\<rparr>) \<and>
   \<not> mirror_inv (snd (users_post env3 db0 \<lparr>ub_name = Some ''carol'',
        ub_email = Some ''carol@example.com'', ub_pendingTasks = Some [tid1]\<rparr>))"
  using users_post_pending_verbatim [of
      "\<lparr>ub_name = Some ''carol'', ub_email = Some ''carol@example.com'',
        ub_pendingTasks = Some [tid1]\<rparr>" "''carol''" "''carol@example.com''" "[tid1]" env3 db0]
  by (simp add: example_defs mirror_inv_def)

subsection \<open>Creating a Task\<close>





text \<open>
  Claim C6, as stated: when the save succeeds and the secondary \<open>pendingTasks\<close> write
  fails, the response is still 201.  It is not: the write is awaited inside the
  \<^verbatim>\<open>try\<close>, so its rejection reaches the \<^verbatim>\<open>catch\<close>.  A Task assigned to the string
  \<^verbatim>\<open>abc\<close>, which is no identifier, is saved, the write to the User is rejected, and the
  answer is 500.
\<close>

theorem tasks_post_push_rejected_counterexample:
  "tasks_post plain_store env3 db0
     (no_task_body\<lparr>tb_name := Some ''plan'', tb_deadline := Some 5,
        tb_assignedUser := Some ''abc''\<rparr>) =
     (respond 500 ''Server error.'' DEmpty,
      \<lparr>users = [alice, bob],
       tasks = [task1, task2,
          \<lparr>t_id = tid3, t_name = ''plan'', t_deadline = 5, t_description = None,
           t_completed = False, t_assignedUser = ''abc'', t_assignedUserName = ''unassigned''\<rparr>],
       oplog = [TaskSave \<lparr>t_id = tid3, t_name = ''plan'', t_deadline = 5,
           t_description = None, t_completed = False, t_assignedUser = ''abc'',
           t_assignedUserName = ''unassigned''\<rparr>,
                UserPush ''abc'' tid3]\<rparr>)"
  by (simp add: handler_defs store_defs example_defs Let_def)

text \<open>
  Claim C6, amended.  When the save of a POST /tasks succeeds and the store rejects
  the secondary write to the assigned User, the failure is surfaced: the response is
  500 with the message \<^verbatim>\<open>Server error.\<close> and no data.  The creation is not rolled back:
  the Task is in the store afterwards.  The Users are as before.
\<close>

theorem tasks_post_push_rejected:
  assumes "tb_name body = Some n" and "n \<noteq> []" and "tb_deadline body = Some d" and "d \<noteq> 0"
    and "Task_save st (build_task ev n d body) = (Inr x, st1)"
    and "t_assignedUser (build_task ev n d body) \<noteq> []"
    and "\<not> t_completed (build_task ev n d body)"
    and "User_push ad st1 (t_assignedUser (build_task ev n d body))
           (t_id (build_task ev n d body)) = (Inl er, st2)"
  shows "tasks_post ad ev st body = (respond 500 ''Server error.'' DEmpty, st2) \<and>
         tasks st2 = tasks st @ [build_task ev n d body] \<and> users st2 = users st"
proof -
  have er: "er = cast_error (t_assignedUser (build_task ev n d body))"
    and st2: "st2 = logop (UserPush (t_assignedUser (build_task ev n d body))
                     (t_id (build_task ev n d body))) st1"
    using assms(8) by (auto simp: User_push_def Let_def split: option.splits)
  have st1: "st1 = (logop (TaskSave (build_task ev n d body)) st)
                     \<lparr>tasks := tasks st @ [build_task ev n d body]\<rparr>"
    using assms(5) by (auto simp: Task_save_def Let_def split: if_splits)
  have "tasks_post ad ev st body = (tasks_write_catch er, st2)"
    using assms by (simp add: tasks_post_def Let_def)
  then show ?thesis
    by (simp add: er st2 st1 tasks_write_catch_def cast_error_def logop_def)
qed

theorem tasks_post_push_rejected_witness:
  "fst (Task_save db0 (build_task env3 ''plan'' 5
          (no_task_body\<lparr>tb_name := Some ''plan'', tb_deadline := Some 5,
             tb_assignedUser := Some ''abc''\<rparr>))) = Inr () \<and>
   fst (User_push plain_store db0 ''abc'' tid3) = Inl (cast_error ''abc'') \<and>
   r_status (fst (tasks_post plain_store env3 db0
     (no_task_body\<lparr>tb_name := Some ''plan'', tb_deadline := Some 5,
        tb_assignedUser := Some ''abc''\<rparr>))) = 500 \<and>
   map t_id (tasks (snd (tasks_post plain_store env3 db0
     (no_task_body\<lparr>tb_name := Some ''plan'', tb_deadline := Some 5,
        tb_assignedUser := Some ''abc''\<rparr>)))) = [tid1, tid2, tid3]"
  using tasks_post_push_rejected [of
      "no_task_body\<lparr>tb_name := Some ''plan'', tb_deadline := Some 5,
         tb_assignedUser := Some ''abc''\<rparr>" "''plan''" 5 db0 env3 "()"
      "snd (Task_save db0 (build_task env3 ''plan'' 5
          (no_task_body\<lparr>tb_name := Some ''plan'', tb_deadline := Some 5,
             tb_assignedUser := Some ''abc''\<rparr>)))"
      plain_store "cast_error ''abc''"
      "snd (User_push plain_store (snd (Task_save db0 (build_task env3 ''plan'' 5
          (no_task_body\<lparr>tb_name := Some ''plan'', tb_deadline := Some 5,
             tb_assignedUser := Some ''abc''\<rparr>)))) ''abc'' tid3)"]
  by (simp add: handler_defs store_defs example_defs Let_def)

subsection \<open>Listing\<close>

lemma parse_param_None: "parse_param p = None \<longleftrightarrow> p = QInvalid"
  by (cases p) simp_all

text \<open>
  Claim C7, as stated: whenever \<open>where\<close>, \<open>sort\<close> or \<open>select\<close> is present and is not
  valid JSON, the answer is 400 and no store call is made.  A parameter that is present
  with the empty string as its value (\<^verbatim>\<open>?where=\<close>) is not valid JSON, but the handlers
  test the parameter for truthiness before they parse it, so they treat it as absent:
  the request is answered 200 after a \<^verbatim>\<open>find\<close>.
\<close>

theorem list_invalid_json_counterexample:
  "users_get plain_store db0 (no_query\<lparr>q_where := QEmpty\<rparr>) =
     (respond 200 ''OK'' (DUsers [alice, bob]),
      db0\<lparr>oplog := [UserFind \<lparr>fq_where = JObj [], fq_sort = Some (JObj []),
                        fq_select = Some (JObj []), fq_skip = None, fq_limit = None\<rparr>]\<rparr>)"
  by (simp add: handler_defs store_defs example_defs Let_def)

text \<open>
  Claim C7, amended.  When one of \<open>where\<close>, \<open>sort\<close>, \<open>select\<close> of a list request is a
  non-empty string that is not valid JSON, GET /users and GET /tasks answer 400 and
  leave the state, the log of store calls included, as it was: no \<^verbatim>\<open>find\<close> and no
  \<^verbatim>\<open>countDocuments\<close> is made, whatever the other parameters are, \<open>count\<close> among them.
\<close>

theorem list_invalid_json:
  assumes "q_where q = QInvalid \<or> q_sort q = QInvalid \<or> q_select q = QInvalid"
  shows "users_get ad st q = (bad_query, st) \<and> tasks_get ad st q = (bad_query, st) \<and>
         r_status bad_query = 400"
proof -
  have "parse_param (q_where q) = None \<or> parse_param (q_sort q) = None \<or>
        parse_param (q_select q) = None"
    using assms by (simp add: parse_param_None)
  then show ?thesis
    by (auto simp: users_get_def tasks_get_def bad_query_def respond_def split: option.splits)
qed

theorem list_invalid_json_witness:
  "users_get plain_store db0 (no_query\<lparr>q_sort := QInvalid, q_count := Some ''true''\<rparr>)
     = (bad_query, db0) \<and>
   tasks_get plain_store db0 (no_query\<lparr>q_sort := QInvalid, q_count := Some ''true''\<rparr>)
     = (bad_query, db0) \<and>
   r_status bad_query = 400 \<and> oplog db0 = []"
  using list_invalid_json
    [of "no_query\<lparr>q_sort := QInvalid, q_count := Some ''true''\<rparr>" plain_store db0]
  by (simp add: no_query_def db0_def)

lemma num_param_paging:
  "(if truthy_num (num_param pint p d) then Some (num_param pint p d) else None) =
     paging pint p (if d = 0 then None else Some (JsNum d))"
  by (cases p) (auto simp: paging_def)

lemma paging_cases:
  "paging pint None d = d" "paging pint (Some []) d = d"
  "s \<noteq> [] \<Longrightarrow> pint s = JsNaN \<Longrightarrow> paging pint (Some s) d = None"
  "s \<noteq> [] \<Longrightarrow> pint s = JsNum n \<Longrightarrow> n \<noteq> 0 \<Longrightarrow> paging pint (Some s) d = Some (JsNum n)"
  by (simp_all add: paging_def)

lemma build_query_paging:
  "build_query wh so se (num_param pint p 0) (num_param pint l d) =
     \<lparr>fq_where = wh, fq_sort = (if truthy_json so then Some so else None),
      fq_select = (if truthy_json se then Some se else None),
      fq_skip = paging pint p None,
      fq_limit = paging pint l (if d = 0 then None else Some (JsNum d))\<rparr>"
  using num_param_paging [of pint p 0] num_param_paging [of pint l d]
  by (simp add: build_query_def)

lemma run_find_limit:
  assumes "fq_limit Q = Some (JsNum l)" and "0 < l" and "l < 2147483648"
    and "ordinary (fq_skip Q)" and "run_find eng Q ds = Inr rs"
  shows "length rs \<le> nat l"
  using assms by (auto simp: run_find_def Let_def split: option.splits)

lemma users_get_find:
  assumes "parse_param (q_where q) = Some wh" and "parse_param (q_sort q) = Some so"
    and "parse_param (q_select q) = Some se" and "q_count q \<noteq> Some ''true''"
  shows "users_get ad st q =
     (case run_find (user_engine ad)
             (build_query wh so se (num_param (host_parseInt ad) (q_skip q) 0)
                (num_param (host_parseInt ad) (q_limit q) 0))
             (users st) of
        Inl er \<Rightarrow> users_read_catch er
      | Inr us \<Rightarrow> respond 200 ''OK'' (DUsers us),
      st\<lparr>oplog := oplog st @
        [UserFind (build_query wh so se (num_param (host_parseInt ad) (q_skip q) 0)
           (num_param (host_parseInt ad) (q_limit q) 0))]\<rparr>)"
  using assms by (simp add: users_get_def User_find_def logop_def Let_def split: sum.splits)

lemma tasks_get_find:
  assumes "parse_param (q_where q) = Some wh" and "parse_param (q_sort q) = Some so"
    and "parse_param (q_select q) = Some se" and "q_count q \<noteq> Some ''true''"
  shows "tasks_get ad st q =
     (case run_find (task_engine ad)
             (build_query wh so se (num_param (host_parseInt ad) (q_skip q) 0)
                (num_param (host_parseInt ad) (q_limit q) 100))
             (tasks st) of
        Inl er \<Rightarrow> server_error_catch er
      | Inr ts \<Rightarrow> respond 200 ''OK'' (DTasks ts),
      st\<lparr>oplog := oplog st @
        [TaskFind (build_query wh so se (num_param (host_parseInt ad) (q_skip q) 0)
           (num_param (host_parseInt ad) (q_limit q) 100))]\<rparr>)"
  using assms by (simp add: tasks_get_def Task_find_def logop_def Let_def split: sum.splits)

text \<open>
  Claim C5, as stated: a non-numeric \<open>limit\<close> makes GET /tasks behave as with its
  default, so that at most 100 documents are returned.  It does not: \<^verbatim>\<open>parseInt\<close> of
  \<^verbatim>\<open>abc\<close> is \<^verbatim>\<open>NaN\<close>, which is falsy, so \<^verbatim>\<open>limit\<close> is not called at all.  On a store
  of 101 Tasks the request with \<^verbatim>\<open>limit=abc\<close> returns 101 documents, the request
  without \<open>limit\<close> returns 100.
\<close>

theorem list_paging_counterexample:
  "data_length (r_data (fst (tasks_get plain_store db101
      (no_query\<lparr>q_limit := Some (units ''abc'')\<rparr>)))) = 101 \<and>
   data_length (r_data (fst (tasks_get plain_store db101 no_query))) = 100"
  by (simp add: handler_defs store_defs example_defs db101_def parse_defs)

text \<open>
  Claim C5, amended.  For a list request whose three JSON parameters parse and that
  is not a count, the one store call is a \<^verbatim>\<open>find\<close> whose skip and limit are given by
  \<open>paging\<close>, for whatever the host's \<^verbatim>\<open>parseInt\<close> is.  An absent \<open>skip\<close> skips nothing;
  an absent \<open>limit\<close> is no limit on GET /users and the limit 100 on GET /tasks.  A
  \<open>skip\<close> or \<open>limit\<close> that is supplied but non-numeric behaves as the default, with one
  exception: a non-empty non-numeric \<open>limit\<close> on GET /tasks makes the handler apply no
  limit at all instead of 100 (the empty string is treated as absent and gives 100).
  With no \<open>limit\<close>, and a skip that is none or a positive 32-bit integer, GET /tasks
  returns at most 100 documents.
\<close>

theorem list_paging:
  assumes "parse_param (q_where q) = Some wh" and "parse_param (q_sort q) = Some so"
    and "parse_param (q_select q) = Some se" and "q_count q \<noteq> Some ''true''"
  shows "oplog (snd (users_get ad st q)) = oplog st @
           [UserFind \<lparr>fq_where = wh, fq_sort = (if truthy_json so then Some so else None),
              fq_select = (if truthy_json se then Some se else None),
              fq_skip = paging (host_parseInt ad) (q_skip q) None,
              fq_limit = paging (host_parseInt ad) (q_limit q) None\<rparr>] \<and>
         oplog (snd (tasks_get ad st q)) = oplog st @
           [TaskFind \<lparr>fq_where = wh, fq_sort = (if truthy_json so then Some so else None),
              fq_select = (if truthy_json se then Some se else None),
              fq_skip = paging (host_parseInt ad) (q_skip q) None,
              fq_limit = paging (host_parseInt ad) (q_limit q) (Some (JsNum 100))\<rparr>] \<and>
         ((q_limit q = None \<or> q_limit q = Some []) \<and>
          ordinary (paging (host_parseInt ad) (q_skip q) None) \<longrightarrow>
            data_length (r_data (fst (tasks_get ad st q))) \<le> 100)"
proof -
  let ?pint = "host_parseInt ad"
  have u: "oplog (snd (users_get ad st q)) = oplog st @
           [UserFind \<lparr>fq_where = wh, fq_sort = (if truthy_json so then Some so else None),
              fq_select = (if truthy_json se then Some se else None),
              fq_skip = paging ?pint (q_skip q) None,
              fq_limit = paging ?pint (q_limit q) None\<rparr>]"
    by (simp add: users_get_find [OF assms] build_query_paging)
  have t: "oplog (snd (tasks_get ad st q)) = oplog st @
           [TaskFind \<lparr>fq_where = wh, fq_sort = (if truthy_json so then Some so else None),
              fq_select = (if truthy_json se then Some se else None),
              fq_skip = paging ?pint (q_skip q) None,
              fq_limit = paging ?pint (q_limit q) (Some (JsNum 100))\<rparr>]"
    by (simp add: tasks_get_find [OF assms] build_query_paging)
  have l: "data_length (r_data (fst (tasks_get ad st q))) \<le> 100"
    if lim: "q_limit q = None \<or> q_limit q = Some []"
      and ord: "ordinary (paging ?pint (q_skip q) None)"
  proof -
    let ?Q = "build_query wh so se (num_param ?pint (q_skip q) 0)
                (num_param ?pint (q_limit q) 100)"
    have Q: "fq_limit ?Q = Some (JsNum 100)" "ordinary (fq_skip ?Q)"
      using lim ord by (auto simp: build_query_paging paging_def)
    show ?thesis
    proof (cases "run_find (task_engine ad) ?Q (tasks st)")
      case (Inl e)
      then show ?thesis
        by (simp add: tasks_get_find [OF assms] server_error_catch_def respond_def)
    next
      case (Inr rs)
      from run_find_limit [OF Q(1) _ _ Q(2) Inr] have "length rs \<le> 100" by simp
      with Inr show ?thesis
        by (simp add: tasks_get_find [OF assms] respond_def)
    qed
  qed
  from u t l show ?thesis by blast
qed

text \<open>
  With \<^verbatim>\<open>skip=x\<close> and \<^verbatim>\<open>limit=abc\<close> both handlers issue a \<^verbatim>\<open>find\<close> without skip and
  without limit; with no parameter, and with \<^verbatim>\<open>limit=\<close>, GET /tasks issues the limit
  100 and GET /users none.
\<close>

theorem list_paging_witness:
  "oplog (snd (users_get plain_store db0
      (no_query\<lparr>q_skip := Some (units ''x''), q_limit := Some (units ''abc'')\<rparr>))) =
     [UserFind \<lparr>fq_where = JObj [], fq_sort = Some (JObj []), fq_select = Some (JObj []),
        fq_skip = None, fq_limit = None\<rparr>] \<and>
   oplog (snd (tasks_get plain_store db0
      (no_query\<lparr>q_skip := Some (units ''x''), q_limit := Some (units ''abc'')\<rparr>))) =
     [TaskFind \<lparr>fq_where = JObj [], fq_sort = Some (JObj []), fq_select = Some (JObj []),
        fq_skip = None, fq_limit = None\<rparr>] \<and>
   oplog (snd (tasks_get plain_store db0 no_query)) =
     [TaskFind \<lparr>fq_where = JObj [], fq_sort = Some (JObj []), fq_select = Some (JObj []),
        fq_skip = None, fq_limit = Some (JsNum 100)\<rparr>] \<and>
   oplog (snd (tasks_get plain_store db0 (no_query\<lparr>q_limit := Some []\<rparr>))) =
     [TaskFind \<lparr>fq_where = JObj [], fq_sort = Some (JObj []), fq_select = Some (JObj []),
        fq_skip = None, fq_limit = Some (JsNum 100)\<rparr>] \<and>
   oplog (snd (users_get plain_store db0 (no_query\<lparr>q_limit := Some []\<rparr>))) =
     [UserFind \<lparr>fq_where = JObj [], fq_sort = Some (JObj []), fq_select = Some (JObj []),
        fq_skip = None, fq_limit = None\<rparr>] \<and>
   data_length (r_data (fst (tasks_get plain_store db101 (no_query\<lparr>q_limit := Some []\<rparr>))))
     = 100"
  using list_paging [of "no_query\<lparr>q_skip := Some (units ''x''), q_limit := Some (units ''abc'')\<rparr>"
      "JObj []" "JObj []" "JObj []" plain_store db0]
    list_paging [of no_query "JObj []" "JObj []" "JObj []" plain_store db0]
    list_paging [of "no_query\<lparr>q_limit := Some []\<rparr>" "JObj []" "JObj []" "JObj []"
      plain_store db0]
  by (simp add: handler_defs store_defs example_defs db101_def paging_def parse_defs)

subsection \<open>Getting a document by its id\<close>

text \<open>
  Both handlers first parse \<open>select\<close> (400 when it is not valid JSON) and take its
  keys (a \<^verbatim>\<open>TypeError\<close> on \<^verbatim>\<open>null\<close>).  With a \<open>select\<close> that passes both steps, an id
  that does not cast is answered 404 by GET /users/:id and 500 by GET /tasks/:id.
\<close>

lemma users_id_get_malformed:
  assumes "cast_id ad uid = None"
    and "sel = QAbsent \<or> sel = QEmpty \<or> (\<exists>j. sel = QJson j \<and> j \<noteq> JNull)"
  shows "fst (users_id_get ad st uid sel) = respond 404 ''User not found.'' DEmpty"
  using assms
  apply (cases sel)
     apply (auto simp: users_id_get_def User_findById_def logop_def Let_def
      users_read_catch_def cast_error_def)
  subgoal for j
    by (cases j) (auto simp: users_id_get_def User_findById_def logop_def Let_def
        users_read_catch_def cast_error_def)
  done

lemma tasks_id_get_malformed:
  assumes "cast_id ad tid = None"
    and "sel = QAbsent \<or> sel = QEmpty \<or> (\<exists>j. sel = QJson j \<and> j \<noteq> JNull)"
  shows "r_status (fst (tasks_id_get ad st tid sel)) = 500"
  using assms
  apply (cases sel)
     apply (auto simp: tasks_id_get_def Task_findById_def logop_def Let_def
      server_error_catch_def respond_def)
  subgoal for j
    by (cases j) (auto simp: tasks_id_get_def Task_findById_def logop_def Let_def
        server_error_catch_def respond_def)
  done

text \<open>
  Claim C4.  On an id that is not a well-formed identifier, GET /users/:id answers 404
  with \<^verbatim>\<open>User not found.\<close>: its \<^verbatim>\<open>catch\<close> has a branch for the \<^verbatim>\<open>CastError\<close>.  The
  \<^verbatim>\<open>catch\<close> of GET /tasks/:id has no such branch, and the same request on a Task is
  answered 500.
\<close>

theorem get_by_id_malformed:
  "r_status (fst (tasks_id_get plain_store db0 ''abc'' QAbsent)) = 500 \<and>
   fst (users_id_get plain_store db0 ''abc'' QAbsent) = respond 404 ''User not found.'' DEmpty \<and>
   objectid_cast ''abc'' = None"
  by (simp add: handler_defs store_defs example_defs Let_def)

subsection \<open>Updating a Task\<close>

lemma tasks_id_put_invalid:
  assumes "cast_id ad tid = Some c" and "List.find (\<lambda>t. t_id t = c) (tasks st) = Some old"
    and "tb_name body = Some []"
  shows "tasks_id_put ad st tid body =
     (respond 400 (''Validation Error: '' @ ''Validation failed'') DEmpty,
      st\<lparr>oplog := oplog st @ [TaskFindById tid None, TaskFindByIdAndUpdate tid body]\<rparr>)"
  using assms
  by (simp add: tasks_id_put_def Task_findById_def Task_findByIdAndUpdate_def logop_def Let_def
      tasks_write_catch_def)

lemma tasks_id_put_updated:
  assumes "cast_id ad tid = Some c" and "List.find (\<lambda>t. t_id t = c) (tasks st) = Some old"
    and "tb_name body \<noteq> Some []"
  shows "tasks_id_put ad st tid body =
     (let new = apply_task_body body old;
          st2 = st\<lparr>oplog := oplog st @ [TaskFindById tid None, TaskFindByIdAndUpdate tid body],
                   tasks := upd_first (\<lambda>w. t_id w = c) (apply_task_body body) (tasks st)\<rparr>;
          ok = respond 200 ''Task updated!'' (DTask new)
      in if t_assignedUser old \<noteq> t_assignedUser new then
           (if t_assignedUser old \<noteq> [] then
              (case User_pull ad st2 (t_assignedUser old) tid of
                 (Inl er, st3) \<Rightarrow> (tasks_write_catch er, st3)
               | (Inr x, st3) \<Rightarrow>
                   put_add_new ad st3 (t_assignedUser new) (t_completed new) tid ok)
            else put_add_new ad st2 (t_assignedUser new) (t_completed new) tid ok)
         else if t_assignedUser new \<noteq> [] \<and> t_completed old \<noteq> t_completed new then
           (if t_completed new then
              (case User_pull ad st2 (t_assignedUser new) tid of
                 (Inl er, st3) \<Rightarrow> (tasks_write_catch er, st3)
               | (Inr x, st3) \<Rightarrow> (ok, st3))
            else
              (case User_push ad st2 (t_assignedUser new) tid of
                 (Inl er, st3) \<Rightarrow> (tasks_write_catch er, st3)
               | (Inr x, st3) \<Rightarrow> (ok, st3)))
         else (ok, st2))"
  using assms
  by (simp add: tasks_id_put_def Task_findById_def Task_findByIdAndUpdate_def logop_def Let_def)

lemma put_add_new_effect:
  "users (snd (put_add_new ad st newUserId isCompleted tid ok)) =
     (if newUserId \<noteq> [] \<and> \<not> isCompleted then add_pending ad newUserId tid (users st)
      else users st) \<and>
   tasks (snd (put_add_new ad st newUserId isCompleted tid ok)) = tasks st \<and>
   oplog (snd (put_add_new ad st newUserId isCompleted tid ok)) =
     oplog st @ (if newUserId \<noteq> [] \<and> \<not> isCompleted then [UserPush newUserId tid] else [])"
  by (simp add: put_add_new_def User_push_eq add_pending_uncast split: option.splits)

text \<open>
  Claim C2, as stated: on every PUT /tasks/:id on an existing Task the Users are
  reconciled by the ordered policy.  Two requests show that they are not.

  First, the Task that the example of claim C6 leaves behind is assigned to \<^verbatim>\<open>abc\<close>,
  which is no identifier.  Reassigning it to Bob updates the Task, the removal from the
  old User is rejected by the store, the answer is 500, and the append to Bob's list,
  which the policy requires, is never made.

  Second, the handler passes the request's id string to \<^verbatim>\<open>$pull\<close> and \<^verbatim>\<open>$push\<close>, not
  the Task's id.  Completing Alice's open Task through its id written in upper case
  finds and updates the Task and answers 200, but removes the upper-case string from
  her list, which holds the id in lower case: the Task's id stays in her list.
\<close>

theorem tasks_id_put_reconciles_counterexample:
  "tasks_id_put plain_store
     (snd (tasks_post plain_store env3 db0
        (no_task_body\<lparr>tb_name := Some ''plan'', tb_deadline := Some 5,
           tb_assignedUser := Some ''abc''\<rparr>)))
     tid3 (no_task_body\<lparr>tb_assignedUser := Some uid2\<rparr>) =
     (respond 500 ''Server error.'' DEmpty,
      \<lparr>users = [alice, bob],
       tasks = [task1, task2,
          \<lparr>t_id = tid3, t_name = ''plan'', t_deadline = 5, t_description = None,
           t_completed = False, t_assignedUser = uid2, t_assignedUserName = ''unassigned''\<rparr>],
       oplog = [TaskSave \<lparr>t_id = tid3, t_name = ''plan'', t_deadline = 5,
                  t_description = None, t_completed = False, t_assignedUser = ''abc'',
                  t_assignedUserName = ''unassigned''\<rparr>,
                UserPush ''abc'' tid3,
                TaskFindById tid3 None,
                TaskFindByIdAndUpdate tid3 (no_task_body\<lparr>tb_assignedUser := Some uid2\<rparr>),
                UserPull ''abc'' tid3]\<rparr>) \<and>
   tasks_id_put plain_store db0 TID1 (no_task_body\<lparr>tb_completed := Some True\<rparr>) =
     (respond 200 ''Task updated!'' (DTask (task1\<lparr>t_completed := True\<rparr>)),
      \<lparr>users = [alice, bob],
       tasks = [task1\<lparr>t_completed := True\<rparr>, task2],
       oplog = [TaskFindById TID1 None,
                TaskFindByIdAndUpdate TID1 (no_task_body\<lparr>tb_completed := Some True\<rparr>),
                UserPull uid1 TID1]\<rparr>) \<and>
   u_pendingTasks alice = [tid1] \<and> t_id task1 = tid1"
  by (simp add: handler_defs store_defs example_defs Let_def)

text \<open>
  Claim C2, amended.  Take a PUT /tasks/:id on an existing Task whose id the request
  writes as the store holds it, and whose assignment before the request is empty or a
  well-formed identifier.  The handler reads the Task, updates it, and then reconciles
  \<open>pendingTasks\<close> by the ordered policy of the specification, which \<open>reconciled_users\<close>
  and \<open>reconcile_writes\<close> spell out for the Task's id.  With \<open>old\<close> the Task before and
  \<open>new\<close> the Task after the request: if the assignment differs, the id is removed from
  the old User when the old assignment is non-empty, and appended to the new User
  exactly when the new assignment is non-empty and \<open>new\<close> is not completed; otherwise,
  if the assignment is non-empty and the completed flag changed, the id is appended on
  a change to not completed and removed on a change to completed; in every other case
  (an update the validators reject included) no User write is issued.  The Users after
  the request are those the policy gives, and the User writes in the log are exactly
  those of the policy, in its order.
\<close>

theorem tasks_id_put_reconciles:
  assumes c: "cast_id ad tid = Some tid"
    and old: "List.find (\<lambda>t. t_id t = tid) (tasks st) = Some old"
    and acc: "t_assignedUser old = [] \<or> cast_id ad (t_assignedUser old) \<noteq> None"
  shows "\<exists>new. List.find (\<lambda>t. t_id t = t_id old) (tasks (snd (tasks_id_put ad st tid body)))
                = Some new \<and>
      users (snd (tasks_id_put ad st tid body)) =
        reconciled_users ad (t_id old) old new (users st) \<and>
      oplog (snd (tasks_id_put ad st tid body)) =
        oplog st @ [TaskFindById tid None, TaskFindByIdAndUpdate tid body] @
        reconcile_writes (t_id old) old new"
proof -
  have idc: "t_id old = tid" using old by (auto dest: find_SomeD)
  show ?thesis
  proof (cases "tb_name body = Some []")
    case True
    show ?thesis
      using tasks_id_put_invalid [OF c old True] old
      by (intro exI [of _ old]) (simp add: reconciled_users_def reconcile_writes_def idc)
  next
    case False
    let ?new = "apply_task_body body old"
    have fnd: "List.find (\<lambda>t. t_id t = tid)
         (upd_first (\<lambda>w. t_id w = tid) (apply_task_body body) (tasks st)) = Some ?new"
      using old idc by (intro find_upd_first) (simp_all add: apply_task_body_id)
    show ?thesis
      apply (intro exI [of _ ?new])
      apply (simp only: tasks_id_put_updated [OF c old False] Let_def idc)
      using acc fnd
      apply (auto simp: reconciled_users_def reconcile_writes_def User_pull_eq User_push_eq
          put_add_new_effect add_pending_uncast remove_pending_uncast Let_def
          tasks_write_catch_def split: option.splits)
      done
  qed
qed

text \<open>
  Reassigning Alice's open Task to Bob moves its id from her list to his; completing
  it removes the id from her list; reopening her completed Task adds its id; renaming
  it writes no User.
\<close>

theorem tasks_id_put_reconciles_witness:
  "tasks_id_put plain_store db0 tid1 (no_task_body\<lparr>tb_assignedUser := Some uid2\<rparr>) =
     (respond 200 ''Task updated!'' (DTask (task1\<lparr>t_assignedUser := uid2\<rparr>)),
      \<lparr>users = [alice\<lparr>u_pendingTasks := []\<rparr>, bob\<lparr>u_pendingTasks := [tid1]\<rparr>],
       tasks = [task1\<lparr>t_assignedUser := uid2\<rparr>, task2],
       oplog = [TaskFindById tid1 None,
                TaskFindByIdAndUpdate tid1 (no_task_body\<lparr>tb_assignedUser := Some uid2\<rparr>),
                UserPull uid1 tid1, UserPush uid2 tid1]\<rparr>) \<and>
   users (snd (tasks_id_put plain_store db0 tid1 (no_task_body\<lparr>tb_completed := Some True\<rparr>)))
     = [alice\<lparr>u_pendingTasks := []\<rparr>, bob] \<and>
   users (snd (tasks_id_put plain_store db0 tid2 (no_task_body\<lparr>tb_completed := Some False\<rparr>)))
     = [alice\<lparr>u_pendingTasks := [tid1, tid2]\<rparr>, bob] \<and>
   oplog (snd (tasks_id_put plain_store db0 tid1 (no_task_body\<lparr>tb_name := Some ''draft''\<rparr>)))
     = [TaskFindById tid1 None,
        TaskFindByIdAndUpdate tid1 (no_task_body\<lparr>tb_name := Some ''draft''\<rparr>)]"
  using tasks_id_put_reconciles [of plain_store tid1 db0 task1
      "no_task_body\<lparr>tb_assignedUser := Some uid2\<rparr>"]
  by (simp add: handler_defs store_defs example_defs Let_def)

subsection \<open>Deleting a Task\<close>

text \<open>
  Claim C8, as stated: a DELETE /tasks/:id answers 404 when no Task matches the id.
  It does not when the id is no well-formed identifier: the store rejects the call, and
  the \<^verbatim>\<open>catch\<close> answers 500.
\<close>

theorem tasks_id_delete_cascade_counterexample:
  "r_status (fst (tasks_id_delete plain_store db0 ''abc'')) = 500 \<and>
   List.find (\<lambda>t. t_id t = ''abc'') (tasks db0) = None"
  by (simp add: handler_defs store_defs example_defs Let_def)

text \<open>
  Claim C8, amended.  For a DELETE /tasks/:id whose id is a well-formed identifier:
  when no Task matches it, the answer is 404 and nothing changes; when a Task matches,
  the Task is removed, its id is removed from the \<open>pendingTasks\<close> of the assigned User
  exactly when its \<open>assignedUser\<close> is non-empty (that write being the only User write),
  and the answer is 200 with the deleted Task, the store accepting the removal.
\<close>

theorem tasks_id_delete_cascade:
  assumes c: "cast_id ad tid = Some c"
  shows "(List.find (\<lambda>t. t_id t = c) (tasks st) = None \<longrightarrow>
            tasks_id_delete ad st tid =
              (respond 404 ''Task not found.'' DEmpty,
               st\<lparr>oplog := oplog st @ [TaskFindByIdAndDelete tid]\<rparr>)) \<and>
         (\<forall>dt. List.find (\<lambda>t. t_id t = c) (tasks st) = Some dt \<longrightarrow>
            tasks (snd (tasks_id_delete ad st tid)) = del_first (\<lambda>w. t_id w = c) (tasks st) \<and>
            users (snd (tasks_id_delete ad st tid)) =
              (if t_assignedUser dt \<noteq> []
               then remove_pending ad (t_assignedUser dt) (t_id dt) (users st)
               else users st) \<and>
            oplog (snd (tasks_id_delete ad st tid)) =
              oplog st @ TaskFindByIdAndDelete tid #
                (if t_assignedUser dt \<noteq> [] then [UserPull (t_assignedUser dt) (t_id dt)]
                 else []) \<and>
            (t_assignedUser dt = [] \<or> cast_id ad (t_assignedUser dt) \<noteq> None \<longrightarrow>
               fst (tasks_id_delete ad st tid) = respond 200 ''Task deleted!'' (DTask dt)))"
  using c
  by (auto simp: tasks_id_delete_def Task_findByIdAndDelete_def logop_def Let_def
      del_first_none User_pull_eq remove_pending_uncast split: option.splits)

text \<open>
  Deleting Alice's open Task removes it and its id from her list; deleting a Task that
  does not exist is answered 404.
\<close>

theorem tasks_id_delete_cascade_witness:
  "tasks_id_delete plain_store db0 tid1 =
     (respond 200 ''Task deleted!'' (DTask task1),
      \<lparr>users = [alice\<lparr>u_pendingTasks := []\<rparr>, bob], tasks = [task2],
       oplog = [TaskFindByIdAndDelete tid1, UserPull uid1 tid1]\<rparr>) \<and>
   tasks_id_delete plain_store db0 tid3 =
     (respond 404 ''Task not found.'' DEmpty, db0\<lparr>oplog := [TaskFindByIdAndDelete tid3]\<rparr>)"
  using tasks_id_delete_cascade [of plain_store tid1 tid1 db0]
    tasks_id_delete_cascade [of plain_store tid3 tid3 db0]
  by (simp add: handler_defs store_defs example_defs Let_def)

end
